theory Spec2Isabelle
  imports Main
begin

section \<open>Data model: the Todo schema\<close>

text \<open>
  The schema file declares a Todo document with embedded subtasks, attachments and
  comments and the option \<open>timestamps: true\<close>. An ObjectId is modelled as a natural
  number and a Date as an integer (milliseconds since the epoch). A path that the
  schema neither requires nor gives a default may be missing from a stored document:
  such a path is an \<open>option\<close>, with \<open>None\<close> for the missing (JavaScript: undefined)
  field. \<open>status\<close> and \<open>priority\<close> are strings, as in the schema (String with an enum).
\<close>

type_synonym oid = nat
type_synonym date = int

record subtask =
  st_id :: oid
  st_title :: string
  st_completed :: bool
  st_createdAt :: date

record attachment =
  filename :: "string option"
  originalName :: "string option"
  mimeType :: "string option"
  size_bytes :: "int option"
  url :: "string option"
  uploadedAt :: date

record comment =
  cm_id :: oid
  cm_text :: string
  cm_user :: oid
  cm_createdAt :: date

record todo =
  todo_id :: oid
  title :: string
  description :: "string option"
  priority :: string
  status :: string
  category :: "string option"
  tags :: "string list"
  dueDate :: "date option"
  dueTime :: "string option"
  completedAt :: "date option"
  starred :: bool
  archived :: bool
  order :: int
  user :: oid
  subtasks :: "subtask list"
  attachments :: "attachment list"
  comments :: "comment list"
  createdAt :: date
  updatedAt :: date

text \<open>The collection is the list of its documents; a request runs against it and
  returns the collection it leaves behind.\<close>

type_synonym store = "todo list"

section \<open>Persistence primitives used by the schema methods\<close>

text \<open>
  \<open>Model.findOne(filter)\<close> returns the first document the filter accepts, or null.
\<close>

definition findOne :: "(todo \<Rightarrow> bool) \<Rightarrow> store \<Rightarrow> todo option" where
  "findOne flt s = find flt s"

text \<open>
  \<open>this.isModified('status')\<close>: for a document loaded from the collection, the path is
  modified when its value differs from the stored one; for a new document the path
  counts as modified (the hook below then still needs \<open>status = completed\<close>, which the
  schema default \<open>pending\<close> never is).
\<close>

definition isModified_status :: "todo option \<Rightarrow> todo \<Rightarrow> bool" where
  "isModified_status orig t = (case orig of None \<Rightarrow> True | Some d \<Rightarrow> status d \<noteq> status t)"

text \<open>
  \<^verbatim>\<open>todoSchema.pre('save', ...)\<close>: sets \<open>completedAt\<close> when the status was modified, is
  \<open>completed\<close>, and \<open>completedAt\<close> is not set.
\<close>

definition pre_save :: "date \<Rightarrow> todo option \<Rightarrow> todo \<Rightarrow> todo" where
  "pre_save now orig t =
     (if isModified_status orig t \<and> status t = ''completed'' \<and> completedAt t = None
      then t\<lparr>completedAt := Some now\<rparr> else t)"

text \<open>Writing a document back: the stored document with the same \<open>_id\<close> is replaced.\<close>

fun replace_doc :: "todo \<Rightarrow> store \<Rightarrow> store" where
  "replace_doc t [] = []"
| "replace_doc t (d # ds) = (if todo_id d = todo_id t then t # ds else d # replace_doc t ds)"

text \<open>
  \<open>doc.save()\<close> of a document that was loaded from the collection and then modified
  (every method below that calls it has changed the document first): the pre-save hook
  runs, \<open>updatedAt\<close> is stamped, and the document is written back. It returns the
  document as it is after the save together with the collection.
\<close>

definition save :: "date \<Rightarrow> todo \<Rightarrow> store \<Rightarrow> todo \<times> store" where
  "save now t s =
     (let orig = findOne (\<lambda>d. todo_id d = todo_id t) s;
          t' = (pre_save now orig t)\<lparr>updatedAt := now\<rparr>
      in (t', replace_doc t' s))"

section \<open>Instance methods\<close>

text \<open>\<^verbatim>\<open>todoSchema.methods.toggleStatus\<close>.\<close>

definition toggleStatus :: "date \<Rightarrow> todo \<Rightarrow> store \<Rightarrow> todo \<times> store" where
  "toggleStatus now t s =
     (let t' = (if status t = ''completed''
                then t\<lparr>status := ''pending'', completedAt := None\<rparr>
                else t\<lparr>status := ''completed'', completedAt := Some now\<rparr>)
      in save now t' s)"

section \<open>Query documents\<close>

text \<open>
  The values a stored field or a query can hold. \<open>Missing\<close> is the value of a path a
  document does not have; it is not \<open>Null\<close>.
\<close>

datatype bson = Missing | Null | BNum int | BStr string | BBool bool | BDate date | BId oid

definition opt_field :: "('a \<Rightarrow> bson) \<Rightarrow> 'a option \<Rightarrow> bson" where
  "opt_field f v = (case v of None \<Rightarrow> Missing | Some x \<Rightarrow> f x)"

text \<open>The scalar paths of a todo, by name.\<close>

definition field :: "string \<Rightarrow> todo \<Rightarrow> bson" where
  "field k t =
     (if k = ''_id'' then BId (todo_id t)
      else if k = ''title'' then BStr (title t)
      else if k = ''description'' then opt_field BStr (description t)
      else if k = ''priority'' then BStr (priority t)
      else if k = ''status'' then BStr (status t)
      else if k = ''category'' then opt_field BStr (category t)
      else if k = ''dueDate'' then opt_field BDate (dueDate t)
      else if k = ''dueTime'' then opt_field BStr (dueTime t)
      else if k = ''completedAt'' then opt_field BDate (completedAt t)
      else if k = ''starred'' then BBool (starred t)
      else if k = ''archived'' then BBool (archived t)
      else if k = ''order'' then BNum (order t)
      else if k = ''user'' then BId (user t)
      else if k = ''createdAt'' then BDate (createdAt t)
      else if k = ''updatedAt'' then BDate (updatedAt t)
      else Missing)"

text \<open>
  A query document is the list of its keys in insertion order. A key holds either a
  value to equal or a \<open>$regex\<close> with its \<open>$options\<close>; the key \<open>$or\<close> holds a list of
  alternatives, each a single key with its condition, as the source writes them.
\<close>

datatype qval = QEq bson | QRegex string string

datatype clause = Key string qval | Or "(string \<times> qval) list"

type_synonym query = "clause list"

text \<open>
  The regular-expression engine belongs to the database, not to this repository: it
  is a parameter. Given a pattern and its options it returns the compiled matcher (a
  search anywhere in the subject), or the error message with which the database
  refuses the pattern.
\<close>

type_synonym regex_engine = "string \<Rightarrow> string \<Rightarrow> string + (string \<Rightarrow> bool)"

text \<open>
  A query's equality on a scalar path holds when the stored value is the queried one
  (a queried \<open>null\<close> also accepts a missing path). A \<open>$regex\<close> holds when the path is a
  string the compiled pattern is found in.
\<close>

fun compile_qval :: "regex_engine \<Rightarrow> string \<Rightarrow> qval \<Rightarrow> string + (todo \<Rightarrow> bool)" where
  "compile_qval rx k (QEq v) =
     Inr (\<lambda>t. field k t = v \<or> (v = Null \<and> field k t = Missing))"
| "compile_qval rx k (QRegex p opts) =
     (case rx p opts of
        Inl e \<Rightarrow> Inl e
      | Inr m \<Rightarrow> Inr (\<lambda>t. case field k t of BStr x \<Rightarrow> m x | _ \<Rightarrow> False))"

fun compile_or :: "regex_engine \<Rightarrow> (string \<times> qval) list \<Rightarrow> string + (todo \<Rightarrow> bool)" where
  "compile_or rx [] = Inr (\<lambda>t. False)"
| "compile_or rx ((k, v) # alts) =
     (case compile_qval rx k v of
        Inl e \<Rightarrow> Inl e
      | Inr p \<Rightarrow>
          (case compile_or rx alts of
             Inl e \<Rightarrow> Inl e
           | Inr q \<Rightarrow> Inr (\<lambda>t. p t \<or> q t)))"

fun compile_clause :: "regex_engine \<Rightarrow> clause \<Rightarrow> string + (todo \<Rightarrow> bool)" where
  "compile_clause rx (Key k v) = compile_qval rx k v"
| "compile_clause rx (Or alts) = compile_or rx alts"

fun compile_query :: "regex_engine \<Rightarrow> query \<Rightarrow> string + (todo \<Rightarrow> bool)" where
  "compile_query rx [] = Inr (\<lambda>t. True)"
| "compile_query rx (c # cs) =
     (case compile_clause rx c of
        Inl e \<Rightarrow> Inl e
      | Inr p \<Rightarrow>
          (case compile_query rx cs of
             Inl e \<Rightarrow> Inl e
           | Inr q \<Rightarrow> Inr (\<lambda>t. p t \<and> q t)))"

text \<open>\<open>Model.find(query)\<close> and \<open>Model.countDocuments(query)\<close>; \<open>Inl\<close> is the
  database's error for a pattern it refuses.\<close>

definition find_docs :: "regex_engine \<Rightarrow> query \<Rightarrow> store \<Rightarrow> string + todo list" where
  "find_docs rx q s = (case compile_query rx q of Inl e \<Rightarrow> Inl e | Inr p \<Rightarrow> Inr (filter p s))"

definition countDocuments :: "regex_engine \<Rightarrow> query \<Rightarrow> store \<Rightarrow> string + nat" where
  "countDocuments rx q s =
     (case compile_query rx q of Inl e \<Rightarrow> Inl e | Inr p \<Rightarrow> Inr (length (filter p s)))"

section \<open>Static method findByUser\<close>

text \<open>
  The \<open>options\<close> object of \<^verbatim>\<open>findByUser\<close>. A key that is absent is \<open>None\<close>. The
  JavaScript tests \<^verbatim>\<open>if (options.status)\<close> are truthiness tests: a present string
  passes when it is not empty. \<^verbatim>\<open>options.starred !== undefined\<close> is a presence test.
\<close>

record find_options =
  opt_status :: "string option"
  opt_priority :: "string option"
  opt_category :: "string option"
  opt_starred :: "bool option"
  opt_search :: "string option"

definition truthy_str :: "string option \<Rightarrow> bool" where
  "truthy_str v = (case v of None \<Rightarrow> False | Some x \<Rightarrow> x \<noteq> [])"

definition findByUser_query :: "oid \<Rightarrow> find_options \<Rightarrow> query" where
  "findByUser_query userId options =
     [Key ''user'' (QEq (BId userId)), Key ''archived'' (QEq (BBool False))]
     @ (if truthy_str (opt_status options)
        then [Key ''status'' (QEq (BStr (the (opt_status options))))] else [])
     @ (if truthy_str (opt_priority options)
        then [Key ''priority'' (QEq (BStr (the (opt_priority options))))] else [])
     @ (if truthy_str (opt_category options)
        then [Key ''category'' (QEq (BStr (the (opt_category options))))] else [])
     @ (case opt_starred options of
          None \<Rightarrow> []
        | Some b \<Rightarrow> [Key ''starred'' (QEq (BBool b))])
     @ (if truthy_str (opt_search options)
        then [Or [(''title'', QRegex (the (opt_search options)) ''i''),
                  (''description'', QRegex (the (opt_search options)) ''i'')]]
        else [])"

text \<open>
  The sort \<^verbatim>\<open>{ order: 1, createdAt: -1 }\<close>: ascending \<open>order\<close>, ties by descending
  \<open>createdAt\<close>. The two \<open>populate\<close> calls replace user references by user documents of a
  collection that is not part of these sources; they do not select or reorder and are
  left out.
\<close>

definition sort_todos :: "todo list \<Rightarrow> todo list" where
  "sort_todos ts = sort_key order (sort_key (\<lambda>t. - createdAt t) ts)"

definition findByUser :: "regex_engine \<Rightarrow> oid \<Rightarrow> find_options \<Rightarrow> store \<Rightarrow> string + todo list" where
  "findByUser rx userId options s =
     (case find_docs rx (findByUser_query userId options) s of
        Inl e \<Rightarrow> Inl e
      | Inr ds \<Rightarrow> Inr (sort_todos ds))"

section \<open>Request handlers: replies and validation\<close>

text \<open>
  A reply is the HTTP status with the JSON envelope \<^verbatim>\<open>{success, message, data, error}\<close>;
  \<^verbatim>\<open>res.json\<close> without \<^verbatim>\<open>res.status\<close> answers 200. The \<^verbatim>\<open>validateRequest\<close> middleware
  answers 400 with the message \<^verbatim>\<open>Validation failed\<close> (the itemised \<open>errors\<close> array is not
  modelled) and the handler does not run.
\<close>

datatype 'a reply =
  Reply (code: nat) (success: bool) (message: "string option") (data: "'a option")
    (error: "string option")

definition validation_failed :: "'a reply" where
  "validation_failed = Reply 400 False (Some ''Validation failed'') None None"

definition server_error :: "string \<Rightarrow> 'a reply" where
  "server_error e = Reply 500 False (Some ''Server error'') None (Some e)"

definition todo_not_found :: "'a reply" where
  "todo_not_found = Reply 404 False (Some ''Todo not found'') None None"

text \<open>
  The validator's \<open>trim\<close> sanitizer (and the schema's \<open>trim\<close> setter) strips white
  space from both ends. A character of the model is a code unit below 256; the white
  space among these is the space, the controls 9 to 13 and the no-break space 160.
  Strings with code units from 256 on, and so the white space up there, are outside
  the model.
\<close>

definition is_space :: "char \<Rightarrow> bool" where
  "is_space c =
     (c \<in> set [CHR '' '', CHR 0x09, CHR 0x0A, CHR 0x0B, CHR 0x0C, CHR 0x0D, CHR 0xA0])"

definition trim :: "string \<Rightarrow> string" where
  "trim x = rev (dropWhile is_space (rev (dropWhile is_space x)))"

section \<open>GET /: list, filter, paginate\<close>

text \<open>
  The query string of the request. \<open>page\<close> and \<open>limit\<close> are held as the integers
  their strings denote (the validator \<open>isInt\<close> refuses anything else).
\<close>

record list_query =
  q_status :: "string option"
  q_priority :: "string option"
  q_category :: "string option"
  q_starred :: "string option"
  q_search :: "string option"
  q_page :: "int option"
  q_limit :: "int option"

definition opt_ok :: "('a \<Rightarrow> bool) \<Rightarrow> 'a option \<Rightarrow> bool" where
  "opt_ok chk v = (case v of None \<Rightarrow> True | Some x \<Rightarrow> chk x)"

definition valid_list_query :: "list_query \<Rightarrow> bool" where
  "valid_list_query q =
     (opt_ok (\<lambda>v. v = ''all'' \<or> v \<in> set [''pending'', ''in-progress'', ''completed'']) (q_status q)
      \<and> opt_ok (\<lambda>v. v = ''all'' \<or> v \<in> set [''low'', ''medium'', ''high'']) (q_priority q)
      \<and> opt_ok (\<lambda>v. v = ''all'' \<or> length (trim v) > 0) (q_category q)
      \<and> opt_ok (\<lambda>v. v = ''all'' \<or> v = ''true'' \<or> v = ''false'') (q_starred q)
      \<and> opt_ok (\<lambda>n. 1 \<le> n) (q_page q)
      \<and> opt_ok (\<lambda>n. 1 \<le> n \<and> n \<le> 100) (q_limit q))"

text \<open>
  The \<open>options\<close> the handler builds: \<open>search\<close> as sanitized, and each of the other
  filters only when it is truthy and not \<^verbatim>\<open>'all'\<close>; \<open>starred\<close> becomes the Boolean
  \<^verbatim>\<open>starred === 'true'\<close>.
\<close>

definition filter_given :: "string option \<Rightarrow> bool" where
  "filter_given v = (truthy_str v \<and> v \<noteq> Some ''all'')"

definition list_options :: "list_query \<Rightarrow> find_options" where
  "list_options q =
     \<lparr> opt_status = (if filter_given (q_status q) then q_status q else None),
       opt_priority = (if filter_given (q_priority q) then q_priority q else None),
       opt_category = (if filter_given (q_category q) then q_category q else None),
       opt_starred = (if filter_given (q_starred q) then Some (q_starred q = Some ''true'') else None),
       opt_search = map_option trim (q_search q) \<rparr>"

text \<open>The query the handler gives to \<open>countDocuments\<close> for the total.\<close>

definition count_query :: "oid \<Rightarrow> string option \<Rightarrow> query" where
  "count_query userId search =
     [Key ''user'' (QEq (BId userId)), Key ''archived'' (QEq (BBool False))]
     @ (if truthy_str search
        then [Or [(''title'', QRegex (the search) ''i''),
                  (''description'', QRegex (the search) ''i'')]]
        else [])"

record pagination =
  current :: int
  pages :: nat
  total :: nat

text \<open>
  \<^verbatim>\<open>Math.ceil(total / limit)\<close> for a count and a limit of at least 1, in integer
  arithmetic.
\<close>

definition ceil_div :: "nat \<Rightarrow> nat \<Rightarrow> nat" where
  "ceil_div n d = (n + d - 1) div d"

definition list_handler ::
  "regex_engine \<Rightarrow> oid \<Rightarrow> list_query \<Rightarrow> store \<Rightarrow> (todo list \<times> pagination) reply" where
  "list_handler rx uid q s =
     (if \<not> valid_list_query q then validation_failed
      else
        let page = (case q_page q of None \<Rightarrow> 1 | Some p \<Rightarrow> p);
            limit = (case q_limit q of None \<Rightarrow> 20 | Some l \<Rightarrow> l);
            search = map_option trim (q_search q)
        in case findByUser rx uid (list_options q) s of
             Inl e \<Rightarrow> server_error e
           | Inr ds \<Rightarrow>
               (let todos = take (nat limit) (drop (nat ((page - 1) * limit)) ds)
                in case countDocuments rx (count_query uid search) s of
                     Inl e \<Rightarrow> server_error e
                   | Inr n \<Rightarrow>
                       Reply 200 True None
                         (Some (todos,
                                \<lparr> current = page, pages = ceil_div n (nat limit), total = n \<rparr>))
                         None))"

section \<open>Static method getStats\<close>

text \<open>
  The pipeline is written in the database's aggregation language; its operators are
  modelled with the meaning the database gives them.
  \<^item> A field path (\<^verbatim>\<open>'$dueDate'\<close>) of a document without that path evaluates to
    \<open>Missing\<close>, and \<open>$addFields\<close> with a \<open>Missing\<close> value adds nothing.
  \<^item> \<open>$eq\<close>, \<open>$ne\<close>, \<open>$lt\<close> compare value and type: values of different types
    compare by the rank of their types in the BSON comparison order, in which a missing
    value stands before null, null before numbers, numbers before strings, and Booleans
    before dates. So a missing value is not equal to null and is less than every date.
  \<^item> In \<open>$and\<close> and \<open>$cond\<close> a value counts as false when it is false, null, missing
    or the number 0, and as true otherwise (every string and every date is true).
\<close>

fun type_rank :: "bson \<Rightarrow> nat" where
  "type_rank Missing = 0"
| "type_rank Null = 5"
| "type_rank (BNum n) = 10"
| "type_rank (BStr x) = 15"
| "type_rank (BId i) = 35"
| "type_rank (BBool b) = 40"
| "type_rank (BDate d) = 45"

fun agg_lt_same :: "bson \<Rightarrow> bson \<Rightarrow> bool" where
  "agg_lt_same (BNum a) (BNum b) = (a < b)"
| "agg_lt_same (BStr a) (BStr b) = ((a, b) \<in> lexord {(c, d). (of_char c :: nat) < of_char d})"
| "agg_lt_same (BId a) (BId b) = (a < b)"
| "agg_lt_same (BBool a) (BBool b) = (\<not> a \<and> b)"
| "agg_lt_same (BDate a) (BDate b) = (a < b)"
| "agg_lt_same a b = False"

definition agg_lt :: "bson \<Rightarrow> bson \<Rightarrow> bool" where
  "agg_lt a b = (if type_rank a = type_rank b then agg_lt_same a b else type_rank a < type_rank b)"

definition agg_eq :: "bson \<Rightarrow> bson \<Rightarrow> bool" where
  "agg_eq a b = (a = b)"

definition agg_ne :: "bson \<Rightarrow> bson \<Rightarrow> bool" where
  "agg_ne a b = (\<not> agg_eq a b)"

fun agg_truthy :: "bson \<Rightarrow> bool" where
  "agg_truthy Missing = False"
| "agg_truthy Null = False"
| "agg_truthy (BBool b) = b"
| "agg_truthy (BNum n) = (n \<noteq> 0)"
| "agg_truthy v = True"

text \<open>
  \<open>$dateToString\<close> with the format \<^verbatim>\<open>%Y-%m-%d\<close> and \<open>$dateFromString\<close> are the
  database's functions: they are the parameters \<open>fmt\<close> and \<open>parse\<close>, the latter with
  \<open>None\<close> for a string it cannot read. The stage \<open>$addFields\<close> computes
  \<open>combinedDueDateTime\<close>: when \<open>dueDate\<close> and \<open>dueTime\<close> are both true, the date read
  from \<^verbatim>\<open>YYYY-MM-DD\<close>, \<^verbatim>\<open>T\<close>, the \<open>dueTime\<close> and \<^verbatim>\<open>:00.000Z\<close>, with \<open>$dueDate\<close> on
  an error or a null string; otherwise \<open>$dueDate\<close>.
\<close>

definition combinedDueDateTime :: "(date \<Rightarrow> string) \<Rightarrow> (string \<Rightarrow> date option) \<Rightarrow> todo \<Rightarrow> bson" where
  "combinedDueDateTime fmt parse t =
     (if agg_truthy (field ''dueDate'' t) \<and> agg_truthy (field ''dueTime'' t)
      then (case (dueDate t, dueTime t) of
              (Some d, Some tm) \<Rightarrow>
                (case parse (fmt d @ ''T'' @ tm @ '':00.000Z'') of
                   Some r \<Rightarrow> BDate r
                 | None \<Rightarrow> field ''dueDate'' t)
            | _ \<Rightarrow> field ''dueDate'' t)
      else field ''dueDate'' t)"

record stats =
  n_total :: nat
  n_completed :: nat
  n_pending :: nat
  n_inProgress :: nat
  n_highPriority :: nat
  n_overdue :: nat

definition count :: "('a \<Rightarrow> bool) \<Rightarrow> 'a list \<Rightarrow> nat" where
  "count p xs = length (filter p xs)"

text \<open>The condition of the \<open>overdue\<close> accumulator of the \<open>$group\<close> stage.\<close>

definition overdue_cond :: "(date \<Rightarrow> string) \<Rightarrow> (string \<Rightarrow> date option) \<Rightarrow> date \<Rightarrow> todo \<Rightarrow> bool" where
  "overdue_cond fmt parse now t =
     (agg_ne (field ''status'' t) (BStr ''completed'')
      \<and> agg_ne (combinedDueDateTime fmt parse t) Null
      \<and> agg_lt (combinedDueDateTime fmt parse t) (BDate now))"

text \<open>
  \<^verbatim>\<open>getStats\<close>: \<open>$match\<close> keeps the user's non-archived todos; \<open>$group\<close> with
  \<^verbatim>\<open>_id: null\<close> yields one document of counts, and no document when nothing matched.
\<close>

definition getStats ::
  "(date \<Rightarrow> string) \<Rightarrow> (string \<Rightarrow> date option) \<Rightarrow> date \<Rightarrow> oid \<Rightarrow> store \<Rightarrow> stats list" where
  "getStats fmt parse now userId s =
     (let ds = filter (\<lambda>t. user t = userId \<and> archived t = False) s
      in if ds = [] then []
         else [\<lparr> n_total = length ds,
                 n_completed = count (\<lambda>t. agg_eq (field ''status'' t) (BStr ''completed'')) ds,
                 n_pending = count (\<lambda>t. agg_eq (field ''status'' t) (BStr ''pending'')) ds,
                 n_inProgress = count (\<lambda>t. agg_eq (field ''status'' t) (BStr ''in-progress'')) ds,
                 n_highPriority = count (\<lambda>t. agg_eq (field ''priority'' t) (BStr ''high'')) ds,
                 n_overdue = count (overdue_cond fmt parse now) ds \<rparr>])"

text \<open>\<^verbatim>\<open>GET /stats/overview\<close>: the first group document, or all zeros.\<close>

definition stats_handler ::
  "(date \<Rightarrow> string) \<Rightarrow> (string \<Rightarrow> date option) \<Rightarrow> date \<Rightarrow> oid \<Rightarrow> store \<Rightarrow> stats reply" where
  "stats_handler fmt parse now uid s =
     Reply 200 True None
       (Some (case getStats fmt parse now uid s of
                [] \<Rightarrow> \<lparr> n_total = 0, n_completed = 0, n_pending = 0, n_inProgress = 0,
                        n_highPriority = 0, n_overdue = 0 \<rparr>
              | st # _ \<Rightarrow> st))
       None"

section \<open>Handlers on a single todo\<close>

text \<open>
  A request body for \<^verbatim>\<open>POST /\<close> and \<^verbatim>\<open>PUT /:id\<close>. The handlers pass the whole body
  on (\<^verbatim>\<open>{...req.body, user}\<close> to the constructor, \<^verbatim>\<open>req.body\<close> to
  \<^verbatim>\<open>findOneAndUpdate\<close>), so everything in the body takes effect, validated by the
  route or not.
  \<^item> The top-level keys that are scalar schema paths, and the tags: each absent
    (\<open>None\<close>) or given. The constructor takes them as the values of the new todo;
    \<open>findOneAndUpdate\<close> sets them.
  \<^item> The top-level keys that are update operators (\<^verbatim>\<open>$set\<close>, \<^verbatim>\<open>$unset\<close>,
    \<^verbatim>\<open>$rename\<close>, \<^verbatim>\<open>$min\<close>, \<^verbatim>\<open>$inc\<close>, ...). Their meaning is the database's and not
    part of these sources: \<open>b_operators\<close> holds it as given, namely what the database,
    at a time, makes of a document under these operators: the updated document, or
    the error message with which it refuses. \<open>None\<close> is a body without operator keys.
    The validators of the routes do not look at these keys, and the constructor of a
    new todo ignores them (they are no schema paths).
  Bodies that carry the embedded arrays or the timestamps at top level are outside
  the model, and so are operators whose result is no longer a document of the schema's
  shape (a required or defaulted path removed, a value of another type stored).
\<close>

record todo_body =
  b_title :: "string option"
  b_description :: "string option"
  b_priority :: "string option"
  b_status :: "string option"
  b_category :: "string option"
  b_tags :: "string list option"
  b_dueDate :: "date option"
  b_dueTime :: "string option"
  b_completedAt :: "date option"
  b_starred :: "bool option"
  b_archived :: "bool option"
  b_order :: "int option"
  b_user :: "oid option"
  b_operators :: "(date \<Rightarrow> todo \<Rightarrow> string + todo) option"

definition the_default :: "'a \<Rightarrow> 'a option \<Rightarrow> 'a" where
  "the_default d v = (case v of None \<Rightarrow> d | Some x \<Rightarrow> x)"

text \<open>The sanitizers of both routes trim title, description, category and dueTime.\<close>

definition sanitize_body :: "todo_body \<Rightarrow> todo_body" where
  "sanitize_body b =
     b\<lparr> b_title := map_option trim (b_title b),
        b_description := map_option trim (b_description b),
        b_category := map_option trim (b_category b),
        b_dueTime := map_option trim (b_dueTime b) \<rparr>"

text \<open>
  The validation chain of \<^verbatim>\<open>POST /\<close>. \<open>notEmpty\<close> runs before \<open>trim\<close>, \<open>isLength\<close>
  after it. The checks \<open>isArray\<close>, \<open>isISO8601\<close>, \<open>isString\<close> and \<open>isBoolean\<close> hold by
  the types of the body.
\<close>

definition valid_create_body :: "todo_body \<Rightarrow> bool" where
  "valid_create_body b =
     ((case b_title b of
         None \<Rightarrow> False
       | Some x \<Rightarrow> x \<noteq> [] \<and> 1 \<le> length (trim x) \<and> length (trim x) \<le> 200)
      \<and> opt_ok (\<lambda>x. length (trim x) \<le> 1000) (b_description b)
      \<and> opt_ok (\<lambda>x. x \<in> set [''low'', ''medium'', ''high'']) (b_priority b)
      \<and> opt_ok (\<lambda>x. length (trim x) \<le> 50) (b_category b))"

text \<open>The validation chain of \<^verbatim>\<open>PUT /:id\<close>.\<close>

definition valid_update_body :: "todo_body \<Rightarrow> bool" where
  "valid_update_body b =
     (opt_ok (\<lambda>x. 1 \<le> length (trim x) \<and> length (trim x) \<le> 200) (b_title b)
      \<and> opt_ok (\<lambda>x. length (trim x) \<le> 1000) (b_description b)
      \<and> opt_ok (\<lambda>x. x \<in> set [''low'', ''medium'', ''high'']) (b_priority b)
      \<and> opt_ok (\<lambda>x. x \<in> set [''pending'', ''in-progress'', ''completed'']) (b_status b)
      \<and> opt_ok (\<lambda>x. length (trim x) \<le> 50) (b_category b))"

text \<open>
  The schema's own validators, which \<open>save\<close> runs on a new document: the enums and the
  length bounds (the schema setters have trimmed the strings).
\<close>

definition schema_valid :: "todo \<Rightarrow> bool" where
  "schema_valid t =
     (title t \<noteq> [] \<and> length (title t) \<le> 200
      \<and> opt_ok (\<lambda>x. length x \<le> 1000) (description t)
      \<and> priority t \<in> set [''low'', ''medium'', ''high'']
      \<and> status t \<in> set [''pending'', ''in-progress'', ''completed'']
      \<and> opt_ok (\<lambda>x. length x \<le> 50) (category t)
      \<and> list_all (\<lambda>x. length x \<le> 30) (tags t))"

text \<open>
  \<^verbatim>\<open>new Todo({...req.body, user: req.user.id})\<close>: the body's paths, the schema defaults
  for the others, and the requesting user whatever the body says. The fresh \<open>_id\<close> is
  given by the environment.
\<close>

definition new_todo :: "date \<Rightarrow> oid \<Rightarrow> oid \<Rightarrow> todo_body \<Rightarrow> todo" where
  "new_todo now nid uid b =
     \<lparr> todo_id = nid,
       title = trim (the_default [] (b_title b)),
       description = map_option trim (b_description b),
       priority = the_default ''medium'' (b_priority b),
       status = the_default ''pending'' (b_status b),
       category = map_option trim (b_category b),
       tags = map trim (the_default [] (b_tags b)),
       dueDate = b_dueDate b,
       dueTime = map_option trim (b_dueTime b),
       completedAt = b_completedAt b,
       starred = the_default False (b_starred b),
       archived = the_default False (b_archived b),
       order = the_default 0 (b_order b),
       user = uid,
       subtasks = [], attachments = [], comments = [],
       createdAt = now, updatedAt = now \<rparr>"

text \<open>
  \<^verbatim>\<open>POST /\<close>: validate, construct, \<open>save\<close> (hook, schema validation, insert). The
  text of a schema validation error is the library's; the model keeps its leading
  words only.
\<close>

definition create_handler :: "date \<Rightarrow> oid \<Rightarrow> oid \<Rightarrow> todo_body \<Rightarrow> store \<Rightarrow> todo reply \<times> store" where
  "create_handler now nid uid b s =
     (if \<not> valid_create_body b then (validation_failed, s)
      else
        let t = pre_save now None (new_todo now nid uid (sanitize_body b))
        in if \<not> schema_valid t then (server_error ''Todo validation failed'', s)
           else (Reply 201 True (Some ''Todo created successfully'') (Some t) None, s @ [t]))"

text \<open>\<^verbatim>\<open>GET /:id\<close>.\<close>

definition owned :: "oid \<Rightarrow> oid \<Rightarrow> todo \<Rightarrow> bool" where
  "owned i uid d = (todo_id d = i \<and> user d = uid)"

definition get_handler :: "oid \<Rightarrow> oid \<Rightarrow> store \<Rightarrow> todo reply" where
  "get_handler uid i s =
     (case findOne (owned i uid) s of
        None \<Rightarrow> todo_not_found
      | Some t \<Rightarrow> Reply 200 True None (Some t) None)"

text \<open>
  \<^verbatim>\<open>Model.findOneAndUpdate(filter, update, {new: true})\<close>: the first document the
  filter accepts is updated in place and returned as updated; null when there is none.
  It is a query, not \<open>save\<close>: the \<^verbatim>\<open>pre('save')\<close> hook does not run.
\<close>

fun findOneAndUpdate :: "(todo \<Rightarrow> bool) \<Rightarrow> (todo \<Rightarrow> todo) \<Rightarrow> store \<Rightarrow> todo option \<times> store" where
  "findOneAndUpdate flt upd [] = (None, [])"
| "findOneAndUpdate flt upd (d # ds) =
     (if flt d then (Some (upd d), upd d # ds)
      else (case findOneAndUpdate flt upd ds of (r, ds') \<Rightarrow> (r, d # ds')))"

text \<open>
  The update the top-level paths of a body stand for: each given path is set (the
  tags through the schema's \<open>trim\<close> setter), and the \<open>timestamps\<close> option stamps
  \<open>updatedAt\<close>.
\<close>

definition apply_body :: "date \<Rightarrow> todo_body \<Rightarrow> todo \<Rightarrow> todo" where
  "apply_body now b t =
     t\<lparr> title := the_default (title t) (b_title b),
        description := (case b_description b of None \<Rightarrow> description t | Some x \<Rightarrow> Some x),
        priority := the_default (priority t) (b_priority b),
        status := the_default (status t) (b_status b),
        category := (case b_category b of None \<Rightarrow> category t | Some x \<Rightarrow> Some x),
        tags := (case b_tags b of None \<Rightarrow> tags t | Some x \<Rightarrow> map trim x),
        dueDate := (case b_dueDate b of None \<Rightarrow> dueDate t | Some x \<Rightarrow> Some x),
        dueTime := (case b_dueTime b of None \<Rightarrow> dueTime t | Some x \<Rightarrow> Some x),
        completedAt := (case b_completedAt b of None \<Rightarrow> completedAt t | Some x \<Rightarrow> Some x),
        starred := the_default (starred t) (b_starred b),
        archived := the_default (archived t) (b_archived b),
        order := the_default (order t) (b_order b),
        user := the_default (user t) (b_user b),
        updatedAt := now \<rparr>"

text \<open>
  The whole update of a body on a document: the top-level paths, then what the
  database makes of the operator keys. \<open>_id\<close> is immutable: the database refuses an
  update that would change it.
\<close>

definition body_update :: "date \<Rightarrow> todo_body \<Rightarrow> todo \<Rightarrow> string + todo" where
  "body_update now b d =
     (case b_operators b of
        None \<Rightarrow> Inr (apply_body now b d)
      | Some f \<Rightarrow>
          (case f now (apply_body now b d) of
             Inl e \<Rightarrow> Inl e
           | Inr d' \<Rightarrow>
               if todo_id d' = todo_id d then Inr d'
               else Inl ''Performing an update on the path _id would modify the immutable field _id''))"

text \<open>
  \<^verbatim>\<open>runValidators: true\<close> runs the schema's validators on the paths the update sets.
  On the top-level paths the route's own validators have already checked the same
  enums and bounds, but for the tags: a tag of more than 30 characters is a
  validation error of the update, thrown before the database is asked.
\<close>

definition update_validators :: "todo_body \<Rightarrow> bool" where
  "update_validators b = opt_ok (list_all (\<lambda>x. length (trim x) \<le> 30)) (b_tags b)"

text \<open>
  \<^verbatim>\<open>PUT /:id\<close>: \<open>findOneAndUpdate\<close> with the filter \<^verbatim>\<open>{_id, user}\<close> and the body as the
  update. The document found is replaced by the updated one, which is the reply's
  data; a thrown error is answered 500 and nothing is written.
\<close>

definition update_handler :: "date \<Rightarrow> oid \<Rightarrow> oid \<Rightarrow> todo_body \<Rightarrow> store \<Rightarrow> todo reply \<times> store" where
  "update_handler now uid i b s =
     (if \<not> valid_update_body b then (validation_failed, s)
      else if \<not> update_validators b then (server_error ''Validation failed'', s)
      else
        (case findOne (owned i uid) s of
           None \<Rightarrow> (todo_not_found, s)
         | Some d \<Rightarrow>
             (case body_update now (sanitize_body b) d of
                Inl e \<Rightarrow> (server_error e, s)
              | Inr d' \<Rightarrow>
                  (Reply 200 True (Some ''Todo updated successfully'') (Some d') None,
                   snd (findOneAndUpdate (owned i uid) (\<lambda>x. d') s)))))"

text \<open>\<^verbatim>\<open>PATCH /:id/toggle\<close>.\<close>

definition toggle_handler :: "date \<Rightarrow> oid \<Rightarrow> oid \<Rightarrow> store \<Rightarrow> todo reply \<times> store" where
  "toggle_handler now uid i s =
     (case findOne (owned i uid) s of
        None \<Rightarrow> (todo_not_found, s)
      | Some t \<Rightarrow>
          (case toggleStatus now t s of
             (t', s') \<Rightarrow>
               (Reply 200 True (Some ''Todo status toggled successfully'') (Some t') None, s')))"

text \<open>\<^verbatim>\<open>DELETE /:id\<close>: \<open>findOneAndDelete\<close> removes the first document the filter accepts.\<close>

fun findOneAndDelete :: "(todo \<Rightarrow> bool) \<Rightarrow> store \<Rightarrow> todo option \<times> store" where
  "findOneAndDelete flt [] = (None, [])"
| "findOneAndDelete flt (d # ds) =
     (if flt d then (Some d, ds)
      else (case findOneAndDelete flt ds of (r, ds') \<Rightarrow> (r, d # ds')))"

definition delete_handler :: "oid \<Rightarrow> oid \<Rightarrow> store \<Rightarrow> todo reply \<times> store" where
  "delete_handler uid i s =
     (case findOneAndDelete (owned i uid) s of
        (None, s') \<Rightarrow> (todo_not_found, s)
      | (Some t, s') \<Rightarrow> (Reply 200 True (Some ''Todo deleted successfully'') None None, s'))"

text \<open>\<^verbatim>\<open>PATCH /:id/archive\<close>.\<close>

definition set_archived :: "date \<Rightarrow> todo \<Rightarrow> todo" where
  "set_archived now t = t\<lparr>archived := True, updatedAt := now\<rparr>"

definition archive_handler :: "date \<Rightarrow> oid \<Rightarrow> oid \<Rightarrow> store \<Rightarrow> todo reply \<times> store" where
  "archive_handler now uid i s =
     (case findOneAndUpdate (owned i uid) (set_archived now) s of
        (None, s') \<Rightarrow> (todo_not_found, s)
      | (Some t, s') \<Rightarrow> (Reply 200 True (Some ''Todo archived successfully'') (Some t) None, s'))"

section \<open>Subtasks and comments\<close>

text \<open>
  \<^verbatim>\<open>addSubtask\<close> pushes the body and saves. The subdocument gets the schema defaults
  (\<open>completed = false\<close>, \<open>createdAt = now\<close>) and a fresh \<open>_id\<close> from the environment; the
  body is its title.
\<close>

definition addSubtask :: "date \<Rightarrow> oid \<Rightarrow> string \<Rightarrow> todo \<Rightarrow> store \<Rightarrow> todo \<times> store" where
  "addSubtask now sid ttl t s =
     save now
       (t\<lparr>subtasks := subtasks t @
            [\<lparr> st_id = sid, st_title = ttl, st_completed = False, st_createdAt = now \<rparr>]\<rparr>) s"

definition valid_text :: "nat \<Rightarrow> string \<Rightarrow> bool" where
  "valid_text n x = (x \<noteq> [] \<and> 1 \<le> length (trim x) \<and> length (trim x) \<le> n)"

definition add_subtask_handler ::
  "date \<Rightarrow> oid \<Rightarrow> oid \<Rightarrow> oid \<Rightarrow> string \<Rightarrow> store \<Rightarrow> todo reply \<times> store" where
  "add_subtask_handler now uid i sid ttl s =
     (if \<not> valid_text 200 ttl then (validation_failed, s)
      else
        (case findOne (owned i uid) s of
           None \<Rightarrow> (todo_not_found, s)
         | Some t \<Rightarrow>
             (case addSubtask now sid (trim ttl) t s of
                (t', s') \<Rightarrow>
                  (Reply 200 True (Some ''Subtask added successfully'') (Some t') None, s'))))"

text \<open>
  \<^verbatim>\<open>toggleSubtask\<close>: \<^verbatim>\<open>this.subtasks.id(subtaskId)\<close> is the first subtask with that
  \<open>_id\<close>, or null. When there is one, its \<open>completed\<close> is negated and the todo saved;
  otherwise the method throws \<^verbatim>\<open>Error('Subtask not found')\<close> (\<open>Inl\<close> of the message)
  before any save.
\<close>

fun flip_subtask :: "oid \<Rightarrow> subtask list \<Rightarrow> subtask list" where
  "flip_subtask sid [] = []"
| "flip_subtask sid (x # xs) =
     (if st_id x = sid then x\<lparr>st_completed := \<not> st_completed x\<rparr> # xs
      else x # flip_subtask sid xs)"

definition toggleSubtask :: "date \<Rightarrow> oid \<Rightarrow> todo \<Rightarrow> store \<Rightarrow> string + (todo \<times> store)" where
  "toggleSubtask now sid t s =
     (case find (\<lambda>x. st_id x = sid) (subtasks t) of
        Some x \<Rightarrow> Inr (save now (t\<lparr>subtasks := flip_subtask sid (subtasks t)\<rparr>) s)
      | None \<Rightarrow> Inl ''Subtask not found'')"

text \<open>
  \<^verbatim>\<open>PATCH /:id/subtasks/:subtaskId\<close>. The \<open>catch\<close> of the handler answers every thrown
  error with status 500, the message \<^verbatim>\<open>Server error\<close> and the error's own message.
\<close>

definition toggle_subtask_handler ::
  "date \<Rightarrow> oid \<Rightarrow> oid \<Rightarrow> oid \<Rightarrow> store \<Rightarrow> todo reply \<times> store" where
  "toggle_subtask_handler now uid i sid s =
     (case findOne (owned i uid) s of
        None \<Rightarrow> (todo_not_found, s)
      | Some t \<Rightarrow>
          (case toggleSubtask now sid t s of
             Inl e \<Rightarrow> (server_error e, s)
           | Inr (t', s') \<Rightarrow>
               (Reply 200 True (Some ''Subtask toggled successfully'') (Some t') None, s')))"

text \<open>\<^verbatim>\<open>addComment\<close> and \<^verbatim>\<open>POST /:id/comments\<close>: the comment's author is the requesting
  user.\<close>

definition addComment :: "date \<Rightarrow> oid \<Rightarrow> string \<Rightarrow> oid \<Rightarrow> todo \<Rightarrow> store \<Rightarrow> todo \<times> store" where
  "addComment now cid txt uid t s =
     save now
       (t\<lparr>comments := comments t @
            [\<lparr> cm_id = cid, cm_text = txt, cm_user = uid, cm_createdAt = now \<rparr>]\<rparr>) s"

definition add_comment_handler ::
  "date \<Rightarrow> oid \<Rightarrow> oid \<Rightarrow> oid \<Rightarrow> string \<Rightarrow> store \<Rightarrow> todo reply \<times> store" where
  "add_comment_handler now uid i cid txt s =
     (if \<not> valid_text 500 txt then (validation_failed, s)
      else
        (case findOne (owned i uid) s of
           None \<Rightarrow> (todo_not_found, s)
         | Some t \<Rightarrow>
             (case addComment now cid (trim txt) uid t s of
                (t', s') \<Rightarrow>
                  (Reply 200 True (Some ''Comment added successfully'') (Some t') None, s'))))"

section \<open>POST /bulk\<close>

text \<open>
  \<open>deleteMany\<close> removes every document the filter accepts and reports their number as
  \<open>deletedCount\<close>. \<open>updateMany\<close> updates every document the filter accepts and reports
  as \<open>modifiedCount\<close> the number of documents the update changed.
\<close>

definition deleteMany :: "(todo \<Rightarrow> bool) \<Rightarrow> store \<Rightarrow> nat \<times> store" where
  "deleteMany flt s = (count flt s, filter (\<lambda>d. \<not> flt d) s)"

definition updateMany :: "(todo \<Rightarrow> bool) \<Rightarrow> (todo \<Rightarrow> todo) \<Rightarrow> store \<Rightarrow> nat \<times> store" where
  "updateMany flt upd s =
     (count (\<lambda>d. flt d \<and> upd d \<noteq> d) s, map (\<lambda>d. if flt d then upd d else d) s)"

record bulk_body =
  action :: string
  todoIds :: "oid list"
  bulk_status :: "string option"

definition valid_bulk_body :: "bulk_body \<Rightarrow> bool" where
  "valid_bulk_body b =
     (action b \<in> set [''delete'', ''archive'', ''update-status'']
      \<and> 1 \<le> length (todoIds b)
      \<and> opt_ok (\<lambda>x. x \<in> set [''pending'', ''in-progress'', ''completed'']) (bulk_status b))"

text \<open>The filter \<^verbatim>\<open>{ _id: { $in: todoIds }, user: req.user.id }\<close>.\<close>

definition bulk_filter :: "oid list \<Rightarrow> oid \<Rightarrow> todo \<Rightarrow> bool" where
  "bulk_filter ids uid d = (todo_id d \<in> set ids \<and> user d = uid)"

text \<open>
  The update \<^verbatim>\<open>{ status, completedAt: status === 'completed' ? new Date() : undefined }\<close>:
  a key whose value is undefined is not part of the update.
\<close>

definition set_status :: "date \<Rightarrow> string \<Rightarrow> todo \<Rightarrow> todo" where
  "set_status now st t =
     (if st = ''completed''
      then t\<lparr>status := st, completedAt := Some now, updatedAt := now\<rparr>
      else t\<lparr>status := st, updatedAt := now\<rparr>)"

text \<open>
  \<^verbatim>\<open>result.modifiedCount || result.deletedCount\<close>: the first operand when it is truthy (a
  number other than 0), otherwise the second. A result of \<open>deleteMany\<close> has no
  \<open>modifiedCount\<close> and a result of \<open>updateMany\<close> no \<open>deletedCount\<close>: undefined is \<open>None\<close>.
\<close>

definition js_or :: "nat option \<Rightarrow> nat option \<Rightarrow> nat option" where
  "js_or a b = (case a of None \<Rightarrow> b | Some n \<Rightarrow> if n \<noteq> 0 then Some n else b)"

text \<open>
  The handler. The reply's data is the \<open>modifiedCount\<close> field, \<open>None\<close> when its value is
  undefined (the JSON then has no such key).
\<close>

definition bulk_ok :: "string \<Rightarrow> nat option \<Rightarrow> (nat option) reply" where
  "bulk_ok act n =
     Reply 200 True (Some (''Bulk '' @ act @ '' completed successfully'')) (Some n) None"

definition bulk_handler :: "date \<Rightarrow> oid \<Rightarrow> bulk_body \<Rightarrow> store \<Rightarrow> (nat option) reply \<times> store" where
  "bulk_handler now uid b s =
     (if \<not> valid_bulk_body b then (validation_failed, s)
      else if action b = ''delete'' then
        (case deleteMany (bulk_filter (todoIds b) uid) s of
           (n, s') \<Rightarrow> (bulk_ok (action b) (js_or None (Some n)), s'))
      else if action b = ''archive'' then
        (case updateMany (bulk_filter (todoIds b) uid) (set_archived now) s of
           (n, s') \<Rightarrow> (bulk_ok (action b) (js_or (Some n) None), s'))
      else
        (case bulk_status b of
           None \<Rightarrow>
             (Reply 400 False (Some ''Status is required for update-status action'') None None, s)
         | Some st \<Rightarrow>
             (case updateMany (bulk_filter (todoIds b) uid) (set_status now st) s of
                (n, s') \<Rightarrow> (bulk_ok (action b) (js_or (Some n) None), s'))))"

section \<open>The exposed surface as a state machine\<close>

text \<open>
  The requests that can change the collection, each with what the environment
  supplies (fresh identifiers for created documents and subdocuments), and the
  collection a request leaves behind. The reading routes leave it as it is.
\<close>

datatype request =
    Create oid todo_body
  | Update oid todo_body
  | Toggle oid
  | Delete oid
  | Archive oid
  | AddSubtask oid oid string
  | ToggleSubtask oid oid
  | AddComment oid oid string
  | Bulk bulk_body

fun handle :: "date \<Rightarrow> oid \<Rightarrow> request \<Rightarrow> store \<Rightarrow> store" where
  "handle now uid (Create nid b) s = snd (create_handler now nid uid b s)"
| "handle now uid (Update i b) s = snd (update_handler now uid i b s)"
| "handle now uid (Toggle i) s = snd (toggle_handler now uid i s)"
| "handle now uid (Delete i) s = snd (delete_handler uid i s)"
| "handle now uid (Archive i) s = snd (archive_handler now uid i s)"
| "handle now uid (AddSubtask i sid ttl) s = snd (add_subtask_handler now uid i sid ttl s)"
| "handle now uid (ToggleSubtask i sid) s = snd (toggle_subtask_handler now uid i sid s)"
| "handle now uid (AddComment i cid txt) s = snd (add_comment_handler now uid i cid txt s)"
| "handle now uid (Bulk b) s = snd (bulk_handler now uid b s)"

text \<open>A sequence of requests, each by some user at some time.\<close>

fun run :: "(date \<times> oid \<times> request) list \<Rightarrow> store \<Rightarrow> store" where
  "run [] s = s"
| "run ((now, uid, r) # rs) s = run rs (handle now uid r s)"

section \<open>A fragment of the regular-expression engine\<close>

text \<open>
  The search text reaches the database as the pattern of a \<open>$regex\<close> with the option
  \<open>i\<close>. To evaluate such queries, the engine is modelled on the patterns made of
  literal characters and the dot: a literal matches the same character up to the case
  of the ASCII letters, the dot matches any character but a line feed, and the pattern
  is searched at every position of the subject. Any other pattern or option is
  outside the fragment, and this model answers it with \<open>Inl\<close>.
\<close>

datatype atom = Lit char | AnyChar

definition metachars :: "char list" where
  "metachars = [CHR 0x5C, CHR ''^'', CHR ''$'', CHR ''.'', CHR ''|'', CHR ''?'', CHR ''*'',
                CHR ''+'', CHR ''('', CHR '')'', CHR ''['', CHR '']'', CHR ''{'', CHR ''}'']"

definition parse_atom :: "char \<Rightarrow> atom option" where
  "parse_atom c =
     (if c = CHR ''.'' then Some AnyChar
      else if c \<in> set metachars then None
      else Some (Lit c))"

definition lower :: "char \<Rightarrow> char" where
  "lower c =
     (case map_of (zip ''ABCDEFGHIJKLMNOPQRSTUVWXYZ'' ''abcdefghijklmnopqrstuvwxyz'') c of
        None \<Rightarrow> c
      | Some l \<Rightarrow> l)"

fun atom_matches :: "atom \<Rightarrow> char \<Rightarrow> bool" where
  "atom_matches (Lit c) x = (lower c = lower x)"
| "atom_matches AnyChar x = (x \<noteq> CHR 0x0A)"

fun match_here :: "atom list \<Rightarrow> string \<Rightarrow> bool" where
  "match_here [] xs = True"
| "match_here (a # ats) [] = False"
| "match_here (a # ats) (x # xs) = (atom_matches a x \<and> match_here ats xs)"

fun regex_search :: "atom list \<Rightarrow> string \<Rightarrow> bool" where
  "regex_search ats [] = match_here ats []"
| "regex_search ats (x # xs) = (match_here ats (x # xs) \<or> regex_search ats xs)"

definition regex_fragment :: regex_engine where
  "regex_fragment p opts =
     (if opts = ''i''
      then (case those (map parse_atom p) of
              None \<Rightarrow> Inl ''pattern outside the modelled fragment''
            | Some ats \<Rightarrow> Inr (regex_search ats))
      else Inl ''options outside the modelled fragment'')"

text \<open>
  What the specification says of the search, in its own words: the search string
  occurs in the text as a substring, case-insensitively.
\<close>

definition ci_substring :: "string \<Rightarrow> string \<Rightarrow> bool" where
  "ci_substring x y = (\<exists>u v. map lower y = u @ map lower x @ v)"

section \<open>Predicates for stating the archiving property\<close>

text \<open>
  A document is hidden with respect to an identifier when it does not have that
  identifier or is archived.

  A request, at the moment it runs, keeps the archiving of an identifier unless it
  is an Update that passes validation, finds a document with that identifier,
  archived, and leaves it not archived, or a Create that is given that identifier. A sequence of requests keeps
  the archiving when each request does so on the collection it runs against.
\<close>

definition hidden :: "oid \<Rightarrow> todo \<Rightarrow> bool" where
  "hidden i d = (todo_id d = i \<longrightarrow> archived d)"

definition update_keeps :: "oid \<Rightarrow> date \<Rightarrow> oid \<Rightarrow> oid \<Rightarrow> todo_body \<Rightarrow> store \<Rightarrow> bool" where
  "update_keeps i now uid j b s =
     (valid_update_body b \<and> update_validators b \<longrightarrow>
        (case findOne (owned j uid) s of
           None \<Rightarrow> True
         | Some d \<Rightarrow>
             (case body_update now (sanitize_body b) d of
                Inl e \<Rightarrow> True
              | Inr d' \<Rightarrow> todo_id d = i \<and> archived d \<longrightarrow> archived d')))"

fun keeps_archived :: "oid \<Rightarrow> date \<Rightarrow> oid \<Rightarrow> request \<Rightarrow> store \<Rightarrow> bool" where
  "keeps_archived i now uid (Update j b) s = update_keeps i now uid j b s"
| "keeps_archived i now uid (Create nid b) s = (nid \<noteq> i)"
| "keeps_archived i now uid r s = True"

fun keeps_all :: "oid \<Rightarrow> (date \<times> oid \<times> request) list \<Rightarrow> store \<Rightarrow> bool" where
  "keeps_all i [] s = True"
| "keeps_all i ((now, uid, r) # rs) s =
     (keeps_archived i now uid r s \<and> keeps_all i rs (handle now uid r s))"

section \<open>Sample data\<close>

definition empty_body :: todo_body where
  "empty_body =
     \<lparr> b_title = None, b_description = None, b_priority = None, b_status = None,
       b_category = None, b_tags = None, b_dueDate = None, b_dueTime = None,
       b_completedAt = None, b_starred = None, b_archived = None, b_order = None,
       b_user = None, b_operators = None \<rparr>"

text \<open>The todo that \<^verbatim>\<open>POST /\<close> with only a title creates (at time 1000).\<close>

definition sample_todo :: "oid \<Rightarrow> oid \<Rightarrow> string \<Rightarrow> todo" where
  "sample_todo i uid ttl = new_todo 1000 i uid (empty_body\<lparr>b_title := Some ttl\<rparr>)"

definition no_query :: list_query where
  "no_query =
     \<lparr> q_status = None, q_priority = None, q_category = None, q_starred = None,
       q_search = None, q_page = None, q_limit = None \<rparr>"

definition no_options :: find_options where
  "no_options =
     \<lparr> opt_status = None, opt_priority = None, opt_category = None, opt_starred = None,
       opt_search = None \<rparr>"

text \<open>A todo of user 7 with one subtask, whose identifier is 5.\<close>

definition todo_with_subtask :: todo where
  "todo_with_subtask =
     (sample_todo 1 7 ''Buy milk'')
       \<lparr>subtasks := [\<lparr> st_id = 5, st_title = ''Whole milk'', st_completed = False,
                      st_createdAt = 1500 \<rparr>]\<rparr>"

text \<open>Two todos of user 7: one pending, one completed.\<close>

definition two_todos :: store where
  "two_todos =
     [sample_todo 1 7 ''Buy milk'', (sample_todo 2 7 ''Pay rent'')\<lparr>status := ''completed''\<rparr>]"

section \<open>Properties\<close>

subsection \<open>Toggle\<close>

lemma findOne_replace_doc:
  "findOne (\<lambda>d. todo_id d = todo_id t) s \<noteq> None \<Longrightarrow>
   findOne (\<lambda>d. todo_id d = todo_id t) (replace_doc t s) = Some t"
  by (induction s) (auto simp: findOne_def)

text \<open>
  C8. Toggle flips the status between completed and pending only: a completed todo
  becomes pending and its \<open>completedAt\<close> becomes absent; any other todo (pending or
  in-progress) becomes completed with \<open>completedAt\<close> set to the current time; the
  result is never in-progress; and the toggled document is what the collection holds
  afterwards.
\<close>

theorem toggleStatus_flips:
  "status (fst (toggleStatus now t s)) =
     (if status t = ''completed'' then ''pending'' else ''completed'')
   \<and> completedAt (fst (toggleStatus now t s)) =
     (if status t = ''completed'' then None else Some now)
   \<and> status (fst (toggleStatus now t s)) \<noteq> ''in-progress''
   \<and> (findOne (\<lambda>d. todo_id d = todo_id t) s = None
      \<or> findOne (\<lambda>d. todo_id d = todo_id t) (snd (toggleStatus now t s))
          = Some (fst (toggleStatus now t s)))"
proof -
  let ?t' = "fst (toggleStatus now t s)"
  have id: "todo_id ?t' = todo_id t"
    by (simp add: toggleStatus_def save_def pre_save_def Let_def)
  have st: "status ?t' = (if status t = ''completed'' then ''pending'' else ''completed'')"
    by (simp add: toggleStatus_def save_def pre_save_def Let_def)
  have ca: "completedAt ?t' = (if status t = ''completed'' then None else Some now)"
    by (simp add: toggleStatus_def save_def pre_save_def Let_def)
  have ne: "status ?t' \<noteq> ''in-progress''"
    by (simp add: st)
  have sn: "snd (toggleStatus now t s) = replace_doc ?t' s"
    by (simp add: toggleStatus_def save_def Let_def)
  have per: "findOne (\<lambda>d. todo_id d = todo_id t) s = None
      \<or> findOne (\<lambda>d. todo_id d = todo_id t) (snd (toggleStatus now t s)) = Some ?t'"
  proof (cases "findOne (\<lambda>d. todo_id d = todo_id t) s")
    case None
    then show ?thesis by simp
  next
    case (Some d)
    then have "findOne (\<lambda>d. todo_id d = todo_id ?t') s \<noteq> None" by (simp add: id)
    from findOne_replace_doc [OF this] show ?thesis by (simp add: id sn)
  qed
  from st ca ne per show ?thesis by blast
qed

theorem toggleStatus_flips_witness:
  "status (fst (toggleStatus 5000 (sample_todo 1 7 ''Buy milk'') [sample_todo 1 7 ''Buy milk'']))
     = ''completed''
   \<and> completedAt (fst (toggleStatus 5000 (sample_todo 1 7 ''Buy milk'')
        [sample_todo 1 7 ''Buy milk''])) = Some 5000
   \<and> findOne (\<lambda>d. todo_id d = 1)
        (snd (toggleStatus 5000 (sample_todo 1 7 ''Buy milk'') [sample_todo 1 7 ''Buy milk'']))
     = Some (fst (toggleStatus 5000 (sample_todo 1 7 ''Buy milk'') [sample_todo 1 7 ''Buy milk'']))"
  using toggleStatus_flips [of 5000 "sample_todo 1 7 ''Buy milk''" "[sample_todo 1 7 ''Buy milk'']"]
  by (simp add: sample_todo_def new_todo_def empty_body_def the_default_def findOne_def)

subsection \<open>The query builder\<close>

lemma findByUser_query_head:
  "findByUser_query uid opts =
     Key ''user'' (QEq (BId uid)) # Key ''archived'' (QEq (BBool False))
       # drop 2 (findByUser_query uid opts)"
  by (simp add: findByUser_query_def)

lemma compile_user_archived:
  "compile_query rx (Key ''user'' (QEq (BId uid)) # Key ''archived'' (QEq (BBool False)) # rest) = Inr p
   \<Longrightarrow> p t \<Longrightarrow> user t = uid \<and> \<not> archived t"
  by (auto simp: field_def split: sum.splits)

lemma list_options_all:
  assumes "q_status q = None \<or> q_status q = Some ''all''"
      and "q_priority q = None \<or> q_priority q = Some ''all''"
      and "q_category q = None \<or> q_category q = Some ''all''"
      and "q_starred q = None \<or> q_starred q = Some ''all''"
      and "q_search q = None"
  shows "list_options q = \<lparr> opt_status = None, opt_priority = None, opt_category = None,
            opt_starred = None, opt_search = None \<rparr>"
  using assms by (auto simp: list_options_def filter_given_def truthy_str_def)

text \<open>
  C6. For every filter set, the query that \<open>findByUser\<close> emits restricts to the given
  user and to \<open>archived = false\<close>: every document its compiled filter accepts, and so
  every document \<open>findByUser\<close> returns, has that user and is not archived. And when each
  of status, priority, category and starred of the request is absent or \<^verbatim>\<open>all\<close> and
  search is absent, the emitted query is exactly the two keys \<open>user\<close> and \<open>archived\<close>.
\<close>

theorem findByUser_query_restricts:
  "(\<forall>p t. compile_query rx (findByUser_query uid opts) = Inr p \<longrightarrow> p t
          \<longrightarrow> user t = uid \<and> \<not> archived t)
   \<and> (\<forall>ds. findByUser rx uid opts s = Inr ds
          \<longrightarrow> (\<forall>t \<in> set ds. user t = uid \<and> \<not> archived t))
   \<and> ((q_status q = None \<or> q_status q = Some ''all'')
       \<and> (q_priority q = None \<or> q_priority q = Some ''all'')
       \<and> (q_category q = None \<or> q_category q = Some ''all'')
       \<and> (q_starred q = None \<or> q_starred q = Some ''all'')
       \<and> q_search q = None
      \<longrightarrow> findByUser_query uid (list_options q)
            = [Key ''user'' (QEq (BId uid)), Key ''archived'' (QEq (BBool False))])"
proof -
  have sem: "user t = uid \<and> \<not> archived t"
    if "compile_query rx (findByUser_query uid opts) = Inr p" "p t" for p t
    using that compile_user_archived [of rx uid "drop 2 (findByUser_query uid opts)" p t]
      findByUser_query_head [of uid opts] by simp
  have docs: "\<forall>t \<in> set ds. user t = uid \<and> \<not> archived t"
    if "findByUser rx uid opts s = Inr ds" for ds
    using that sem
    by (auto simp: findByUser_def find_docs_def sort_todos_def split: sum.splits)
  have ex: "findByUser_query uid (list_options q)
            = [Key ''user'' (QEq (BId uid)), Key ''archived'' (QEq (BBool False))]"
    if "q_status q = None \<or> q_status q = Some ''all''"
       "q_priority q = None \<or> q_priority q = Some ''all''"
       "q_category q = None \<or> q_category q = Some ''all''"
       "q_starred q = None \<or> q_starred q = Some ''all''"
       "q_search q = None"
    using list_options_all [OF that] by (simp add: findByUser_query_def truthy_str_def)
  from sem docs ex show ?thesis by blast
qed

theorem findByUser_query_restricts_witness:
  "findByUser regex_fragment 7 no_options
       [sample_todo 1 7 ''Buy milk'', sample_todo 2 8 ''Call home'']
     = Inr [sample_todo 1 7 ''Buy milk'']
   \<and> user (sample_todo 1 7 ''Buy milk'') = 7
   \<and> \<not> archived (sample_todo 1 7 ''Buy milk'')
   \<and> findByUser_query 7 (list_options (no_query\<lparr>q_status := Some ''all''\<rparr>))
       = [Key ''user'' (QEq (BId 7)), Key ''archived'' (QEq (BBool False))]"
  using findByUser_query_restricts [of regex_fragment 7 no_options
      "[sample_todo 1 7 ''Buy milk'', sample_todo 2 8 ''Call home'']"
      "no_query\<lparr>q_status := Some ''all''\<rparr>"]
  by (simp add: no_query_def no_options_def findByUser_def find_docs_def findByUser_query_def
      truthy_str_def field_def sort_todos_def sample_todo_def new_todo_def empty_body_def
      the_default_def)

subsection \<open>The total of the list response\<close>

text \<open>
  C1. The total of the pagination envelope comes from a count whose query holds the
  user, \<open>archived = false\<close> and the search only, while the page comes from
  \<open>findByUser\<close> with every active filter. On two todos of user 7, one pending and one
  completed, the request \<^verbatim>\<open>status=completed&limit=1\<close> returns the one completed todo,
  which is all that the page's filter matches, yet reports a total of 2 and 2 pages.
\<close>

theorem list_handler_total_ignores_status:
  "list_handler rx 7 (no_query\<lparr>q_status := Some ''completed'', q_limit := Some 1\<rparr>) two_todos
     = Reply 200 True None
         (Some ([(sample_todo 2 7 ''Pay rent'')\<lparr>status := ''completed''\<rparr>],
                \<lparr> current = 1, pages = 2, total = 2 \<rparr>)) None
   \<and> findByUser rx 7 (list_options (no_query\<lparr>q_status := Some ''completed'', q_limit := Some 1\<rparr>))
        two_todos
     = Inr [(sample_todo 2 7 ''Pay rent'')\<lparr>status := ''completed''\<rparr>]"
  by (simp add: list_handler_def valid_list_query_def opt_ok_def no_query_def list_options_def
      filter_given_def truthy_str_def findByUser_def find_docs_def findByUser_query_def
      count_query_def countDocuments_def field_def sort_todos_def two_todos_def
      sample_todo_def new_todo_def empty_body_def the_default_def ceil_div_def)

subsection \<open>Search\<close>

lemma match_here_lit:
  "match_here (map Lit x) y \<longleftrightarrow> (\<exists>v. map lower y = map lower x @ v)"
proof (induction x arbitrary: y)
  case Nil
  then show ?case by simp
next
  case (Cons c x)
  then show ?case by (cases y) auto
qed

lemma regex_search_lit:
  "regex_search (map Lit x) y \<longleftrightarrow> ci_substring x y"
proof (induction y)
  case Nil
  then show ?case by (cases x) (auto simp: ci_substring_def)
next
  case (Cons c y)
  have "ci_substring x (c # y) \<longleftrightarrow>
        (\<exists>v. map lower (c # y) = map lower x @ v) \<or> ci_substring x y"
  proof
    assume "ci_substring x (c # y)"
    then obtain u v where uv: "lower c # map lower y = u @ map lower x @ v"
      by (auto simp: ci_substring_def)
    show "(\<exists>v. map lower (c # y) = map lower x @ v) \<or> ci_substring x y"
    proof (cases u)
      case Nil
      with uv show ?thesis by auto
    next
      case (Cons a u')
      with uv have "map lower y = u' @ map lower x @ v" by simp
      then show ?thesis by (auto simp: ci_substring_def)
    qed
  next
    assume "(\<exists>v. map lower (c # y) = map lower x @ v) \<or> ci_substring x y"
    then show "ci_substring x (c # y)"
    proof
      assume "\<exists>v. map lower (c # y) = map lower x @ v"
      then obtain v where "map lower (c # y) = [] @ map lower x @ v" by auto
      then show ?thesis unfolding ci_substring_def by blast
    next
      assume "ci_substring x y"
      then obtain u v where "map lower y = u @ map lower x @ v"
        by (auto simp: ci_substring_def)
      then have "map lower (c # y) = (lower c # u) @ map lower x @ v" by simp
      then show ?thesis unfolding ci_substring_def by blast
    qed
  qed
  with Cons show ?case by (simp only: regex_search.simps match_here_lit)
qed

lemma those_literal:
  "\<forall>c \<in> set x. c \<notin> set metachars \<Longrightarrow> those (map parse_atom x) = Some (map Lit x)"
  by (induction x) (auto simp: parse_atom_def metachars_def)

lemma regex_fragment_literal:
  "\<forall>c \<in> set x. c \<notin> set metachars \<Longrightarrow> regex_fragment x ''i'' = Inr (regex_search (map Lit x))"
  by (simp add: regex_fragment_def those_literal)

lemma compile_query_Cons_Inr:
  "compile_query rx (c # cs) = Inr p \<Longrightarrow>
   \<exists>pc ps. compile_clause rx c = Inr pc \<and> compile_query rx cs = Inr ps \<and> p = (\<lambda>t. pc t \<and> ps t)"
  by (cases "compile_clause rx c"; cases "compile_query rx cs") auto

lemma compile_query_append:
  "compile_query rx a = Inr p \<Longrightarrow> compile_query rx b = Inr q \<Longrightarrow>
   \<exists>r. compile_query rx (a @ b) = Inr r \<and> (\<forall>t. r t \<longleftrightarrow> p t \<and> q t)"
proof (induction a arbitrary: p)
  case Nil
  then show ?case by auto
next
  case (Cons c a)
  from compile_query_Cons_Inr [OF Cons.prems(1)] obtain pc ps
    where pc: "compile_clause rx c = Inr pc" and ps: "compile_query rx a = Inr ps"
      and p: "p = (\<lambda>t. pc t \<and> ps t)" by blast
  from Cons.IH [OF ps Cons.prems(2)] obtain r
    where r: "compile_query rx (a @ b) = Inr r" and rt: "\<And>t. r t \<longleftrightarrow> ps t \<and> q t" by blast
  have "compile_query rx ((c # a) @ b) = Inr (\<lambda>t. pc t \<and> r t)"
    by (simp add: pc r)
  moreover have "\<forall>t. (pc t \<and> r t) \<longleftrightarrow> p t \<and> q t"
    by (simp add: p rt)
  ultimately show ?case by blast
qed

lemma base_query_compiles: "\<exists>q. compile_query rx (findByUser_query uid (opts\<lparr>opt_search := None\<rparr>)) = Inr q"
  by (simp add: findByUser_query_def truthy_str_def split: option.splits)

lemma findByUser_query_search:
  "opt_search opts = Some x \<Longrightarrow>
   findByUser_query uid opts =
     findByUser_query uid (opts\<lparr>opt_search := None\<rparr>)
     @ (if x \<noteq> [] then [Or [(''title'', QRegex x ''i''), (''description'', QRegex x ''i'')]] else [])"
  by (simp add: findByUser_query_def truthy_str_def)

lemma ci_substring_empty: "ci_substring [] y"
  unfolding ci_substring_def by (metis append_Nil list.simps(8))

lemma field_title: "field ''title'' t = BStr (title t)"
  by (simp add: field_def)

lemma field_description: "field ''description'' t = opt_field BStr (description t)"
  by (simp add: field_def)

lemma compile_search_clause:
  assumes "\<forall>c \<in> set x. c \<notin> set metachars"
  shows "\<exists>r. compile_query regex_fragment
            (if x \<noteq> [] then [Or [(''title'', QRegex x ''i''), (''description'', QRegex x ''i'')]] else []) = Inr r
         \<and> (\<forall>t. r t \<longleftrightarrow> ci_substring x (title t) \<or> (\<exists>d. description t = Some d \<and> ci_substring x d))"
proof (cases "x = []")
  case True
  then show ?thesis by (simp add: ci_substring_empty)
next
  case False
  define r where "r = (\<lambda>t::todo. (ci_substring x (title t)
                    \<or> (case opt_field BStr (description t) of BStr y \<Rightarrow> ci_substring x y | _ \<Rightarrow> False)
                    \<or> False) \<and> True)"
  have c: "compile_query regex_fragment
          [Or [(''title'', QRegex x ''i''), (''description'', QRegex x ''i'')]] = Inr r"
    unfolding r_def
    by (simp add: regex_fragment_literal [OF assms] regex_search_lit field_title field_description
        cong: bson.case_cong)
  have d: "(case opt_field BStr (description t) of BStr y \<Rightarrow> ci_substring x y | _ \<Rightarrow> False)
                 \<longleftrightarrow> (\<exists>d. description t = Some d \<and> ci_substring x d)" for t
    by (cases "description t") (simp_all add: opt_field_def)
  have rt: "\<forall>t. r t \<longleftrightarrow> ci_substring x (title t) \<or> (\<exists>d. description t = Some d \<and> ci_substring x d)"
    unfolding r_def by (simp only: d simp_thms)
  have e: "(if x \<noteq> [] then [Or [(''title'', QRegex x ''i''), (''description'', QRegex x ''i'')]] else [])
           = [Or [(''title'', QRegex x ''i''), (''description'', QRegex x ''i'')]]"
    using False by simp
  show ?thesis unfolding e using c rt by blast
qed

text \<open>
  C7, as the code has it. The search string is the pattern of a regular expression,
  not a text to find. When every character of the search string is an ordinary
  character (none of the metacharacters), the query compiles, and a todo matches it
  exactly when it matches the query without the search and the search string occurs,
  case-insensitively, as a substring of its title or of its description.
\<close>

theorem findByUser_search_literal:
  assumes "\<forall>c \<in> set x. c \<notin> set metachars" and "opt_search opts = Some x"
  shows "\<exists>p q. compile_query regex_fragment (findByUser_query uid opts) = Inr p
           \<and> compile_query regex_fragment (findByUser_query uid (opts\<lparr>opt_search := None\<rparr>)) = Inr q
           \<and> (\<forall>t. p t \<longleftrightarrow>
                  q t \<and> (ci_substring x (title t)
                         \<or> (\<exists>d. description t = Some d \<and> ci_substring x d)))"
proof -
  obtain q where q: "compile_query regex_fragment (findByUser_query uid (opts\<lparr>opt_search := None\<rparr>)) = Inr q"
    using base_query_compiles by blast
  obtain r where r: "compile_query regex_fragment
            (if x \<noteq> [] then [Or [(''title'', QRegex x ''i''), (''description'', QRegex x ''i'')]] else []) = Inr r"
    and rt: "\<And>t. r t \<longleftrightarrow> ci_substring x (title t) \<or> (\<exists>d. description t = Some d \<and> ci_substring x d)"
    using compile_search_clause [OF assms(1)] by blast
  from compile_query_append [OF q r] findByUser_query_search [OF assms(2), of uid]
  obtain p where "compile_query regex_fragment (findByUser_query uid opts) = Inr p"
    and "\<And>t. p t \<longleftrightarrow> q t \<and> r t" by auto
  with q rt show ?thesis by auto
qed


theorem findByUser_search_literal_witness:
  "findByUser regex_fragment 7 (no_options\<lparr>opt_search := Some ''milk''\<rparr>)
       [sample_todo 1 7 ''Buy Milk'',
        (sample_todo 2 7 ''Shopping'')\<lparr>description := Some ''milk and eggs''\<rparr>,
        sample_todo 3 7 ''Call home'']
     = Inr [sample_todo 1 7 ''Buy Milk'',
            (sample_todo 2 7 ''Shopping'')\<lparr>description := Some ''milk and eggs''\<rparr>]
   \<and> ci_substring ''milk'' ''Buy Milk''
   \<and> ci_substring ''milk'' ''milk and eggs''
   \<and> \<not> ci_substring ''milk'' ''Shopping''
   \<and> \<not> ci_substring ''milk'' ''Call home''"
  using findByUser_search_literal [of "''milk''" "no_options\<lparr>opt_search := Some ''milk''\<rparr>" 7]
  by (simp add: regex_search_lit [symmetric] lower_def metachars_def no_options_def
      findByUser_def find_docs_def findByUser_query_def truthy_str_def regex_fragment_def
      parse_atom_def field_def opt_field_def sort_todos_def sample_todo_def new_todo_def
      empty_body_def the_default_def trim_def is_space_def)

text \<open>
  C7 as stated fails: the search \<^verbatim>\<open>a.c\<close> matches a todo whose title is \<^verbatim>\<open>abc\<close> and
  which has no description, although \<^verbatim>\<open>a.c\<close> is not a substring of \<^verbatim>\<open>abc\<close>.
\<close>

theorem findByUser_search_is_regex:
  "findByUser regex_fragment 7 (no_options\<lparr>opt_search := Some ''a.c''\<rparr>) [sample_todo 1 7 ''abc'']
     = Inr [sample_todo 1 7 ''abc'']
   \<and> \<not> ci_substring ''a.c'' (title (sample_todo 1 7 ''abc''))
   \<and> description (sample_todo 1 7 ''abc'') = None"
  by (simp add: regex_search_lit [symmetric] lower_def metachars_def no_options_def
      findByUser_def find_docs_def findByUser_query_def truthy_str_def regex_fragment_def
      parse_atom_def field_def opt_field_def sort_todos_def sample_todo_def new_todo_def
      empty_body_def the_default_def trim_def is_space_def)

subsection \<open>Statistics\<close>

lemma field_status: "field ''status'' t = BStr (status t)"
  by (simp add: field_def)

lemma field_dueDate: "field ''dueDate'' t = opt_field BDate (dueDate t)"
  by (simp add: field_def)

lemma field_dueTime: "field ''dueTime'' t = opt_field BStr (dueTime t)"
  by (simp add: field_def)

lemma overdue_cond_char:
  "overdue_cond fmt parse now t \<longleftrightarrow>
     status t \<noteq> ''completed''
     \<and> (case dueDate t of
          None \<Rightarrow> True
        | Some d \<Rightarrow>
            (case dueTime t of
               None \<Rightarrow> d < now
             | Some tm \<Rightarrow>
                 (case parse (fmt d @ ''T'' @ tm @ '':00.000Z'') of
                    None \<Rightarrow> d < now
                  | Some r \<Rightarrow> r < now)))"
  by (simp add: overdue_cond_def combinedDueDateTime_def field_status field_dueDate field_dueTime
      opt_field_def agg_ne_def agg_eq_def agg_lt_def split: option.splits)

text \<open>
  C2. The pipeline guards the overdue count with \<^verbatim>\<open>$ne: ['$combinedDueDateTime', null]\<close>.
  For a todo without \<open>dueDate\<close> the combined value is missing, not null: the guard
  lets it pass, and a missing value is less than every date. A single pending todo
  without a due date is counted as overdue, at every current time.
\<close>

theorem getStats_counts_missing_dueDate:
  "getStats fmt parse now 7 [sample_todo 1 7 ''Buy milk'']
     = [\<lparr> n_total = 1, n_completed = 0, n_pending = 1, n_inProgress = 0,
          n_highPriority = 0, n_overdue = 1 \<rparr>]
   \<and> dueDate (sample_todo 1 7 ''Buy milk'') = None"
  by (simp add: getStats_def count_def overdue_cond_char agg_eq_def field_def
      sample_todo_def new_todo_def empty_body_def the_default_def)

subsection \<open>Update and completedAt\<close>

text \<open>
  C3. \<^verbatim>\<open>PUT /:id\<close> writes through \<open>findOneAndUpdate\<close>, on which the \<^verbatim>\<open>pre('save')\<close>
  hook does not run: updating a pending todo to \<open>completed\<close> leaves \<open>completedAt\<close>
  absent, in the reply and in the collection.
\<close>

theorem update_handler_skips_completedAt:
  "update_handler 5000 7 1 (empty_body\<lparr>b_status := Some ''completed''\<rparr>)
       [sample_todo 1 7 ''Buy milk'']
     = (Reply 200 True (Some ''Todo updated successfully'')
          (Some ((sample_todo 1 7 ''Buy milk'')\<lparr>status := ''completed'', updatedAt := 5000\<rparr>)) None,
        [(sample_todo 1 7 ''Buy milk'')\<lparr>status := ''completed'', updatedAt := 5000\<rparr>])
   \<and> status (sample_todo 1 7 ''Buy milk'') = ''pending''
   \<and> completedAt ((sample_todo 1 7 ''Buy milk'')\<lparr>status := ''completed'', updatedAt := 5000\<rparr>) = None"
  by (simp add: update_handler_def valid_update_body_def update_validators_def opt_ok_def
      sanitize_body_def body_update_def apply_body_def findOne_def owned_def empty_body_def
      sample_todo_def new_todo_def the_default_def)

subsection \<open>Toggling an unknown subtask\<close>

lemma find_None_iff: "find P xs = None \<longleftrightarrow> (\<forall>x \<in> set xs. \<not> P x)"
  by (induction xs) auto

text \<open>
  When no subtask of the todo has the given identifier, \<open>toggleSubtask\<close> throws the
  error \<^verbatim>\<open>Subtask not found\<close> without saving, and the handler, having found the todo,
  answers with status 500, the message \<^verbatim>\<open>Server error\<close> and that error text, and
  leaves the collection as it was.
\<close>

lemma toggle_subtask_unknown:
  assumes "\<forall>x \<in> set (subtasks t). st_id x \<noteq> sid"
  shows "toggleSubtask now sid t s = Inl ''Subtask not found''
         \<and> (findOne (owned i uid) s = Some t \<longrightarrow>
              toggle_subtask_handler now uid i sid s
                = (Reply 500 False (Some ''Server error'') None (Some ''Subtask not found''), s))"
proof -
  from assms have "find (\<lambda>x. st_id x = sid) (subtasks t) = None"
    by (simp add: find_None_iff)
  then have m: "toggleSubtask now sid t s = Inl ''Subtask not found''"
    by (simp add: toggleSubtask_def)
  then show ?thesis
    by (simp add: toggle_subtask_handler_def server_error_def)
qed

text \<open>
  C4. The todo of user 7 has one subtask, with identifier 5. Toggling that subtask
  flips it and saves the todo. Toggling the subtask identifier 99, which the todo does
  not have, leaves the todo and the collection unmodified, as the claim says, but the
  failure is not of the NotFound class: the method throws a plain error, and the
  handler's \<open>catch\<close> answers it with status 500 and the message \<^verbatim>\<open>Server error\<close>,
  where the same handler answers an unknown todo with 404.
\<close>

theorem toggle_subtask_unknown_is_500:
  "toggle_subtask_handler 5000 7 1 99 [todo_with_subtask]
     = (Reply 500 False (Some ''Server error'') None (Some ''Subtask not found''),
        [todo_with_subtask])
   \<and> toggle_subtask_handler 5000 7 2 99 [todo_with_subtask]
     = (Reply 404 False (Some ''Todo not found'') None None, [todo_with_subtask])
   \<and> toggle_subtask_handler 5000 7 1 5 [todo_with_subtask]
     = (Reply 200 True (Some ''Subtask toggled successfully'')
          (Some (todo_with_subtask
             \<lparr>subtasks := [\<lparr> st_id = 5, st_title = ''Whole milk'', st_completed = True,
                            st_createdAt = 1500 \<rparr>],
               updatedAt := 5000\<rparr>)) None,
        [todo_with_subtask
           \<lparr>subtasks := [\<lparr> st_id = 5, st_title = ''Whole milk'', st_completed = True,
                          st_createdAt = 1500 \<rparr>],
             updatedAt := 5000\<rparr>])"
  by (simp add: toggle_subtask_handler_def toggleSubtask_def server_error_def todo_not_found_def
      save_def pre_save_def isModified_status_def Let_def findOne_def owned_def
      todo_with_subtask_def sample_todo_def new_todo_def empty_body_def the_default_def)

subsection \<open>Archiving\<close>

lemma findOne_in_set: "findOne flt s = Some t \<Longrightarrow> t \<in> set s"
  by (induction s) (auto simp: findOne_def split: if_splits)

lemma replace_doc_all: "P t \<Longrightarrow> list_all P s \<Longrightarrow> list_all P (replace_doc t s)"
  by (induction s) auto

lemma hidden_pre_save: "hidden i (pre_save now orig t) = hidden i t"
  by (simp add: pre_save_def hidden_def)

lemma save_hidden:
  "hidden i t \<Longrightarrow> list_all (hidden i) s \<Longrightarrow> list_all (hidden i) (snd (save now t s))"
proof -
  assume t: "hidden i t" and s: "list_all (hidden i) s"
  let ?t' = "(pre_save now (findOne (\<lambda>d. todo_id d = todo_id t) s) t)\<lparr>updatedAt := now\<rparr>"
  have "hidden i ?t'" using t hidden_pre_save [of i now _ t] by (simp add: hidden_def pre_save_def)
  from replace_doc_all [of "hidden i", OF this s] show ?thesis by (simp add: save_def Let_def)
qed

lemma findOneAndUpdate_all:
  "(\<And>d. P d \<Longrightarrow> P (upd d)) \<Longrightarrow> list_all P s \<Longrightarrow> list_all P (snd (findOneAndUpdate flt upd s))"
  by (induction s) (auto split: prod.splits)

lemma findOneAndDelete_all:
  "list_all P s \<Longrightarrow> list_all P (snd (findOneAndDelete flt s))"
  by (induction s) (auto split: prod.splits)

lemma apply_body_id: "todo_id (apply_body now b d) = todo_id d"
  by (simp add: apply_body_def)

lemma body_update_id: "body_update now b d = Inr d' \<Longrightarrow> todo_id d' = todo_id d"
  by (auto simp: body_update_def apply_body_id split: option.splits sum.splits if_splits)

lemma create_hidden:
  "nid \<noteq> i \<Longrightarrow> list_all (hidden i) s \<Longrightarrow> list_all (hidden i) (snd (create_handler now nid uid b s))"
  by (simp add: create_handler_def Let_def hidden_def pre_save_def new_todo_def)

lemma update_hidden:
  assumes k: "update_keeps i now uid j b s" and h: "list_all (hidden i) s"
  shows "list_all (hidden i) (snd (update_handler now uid j b s))"
proof (cases "valid_update_body b \<and> update_validators b")
  case False
  then show ?thesis using h by (auto simp: update_handler_def)
next
  case valid: True
  show ?thesis
  proof (cases "findOne (owned j uid) s")
  case None
  then show ?thesis using h by (simp add: update_handler_def)
next
  case (Some d)
  then have hd: "hidden i d" using h findOne_in_set by (fastforce simp: list_all_iff)
  show ?thesis
  proof (cases "body_update now (sanitize_body b) d")
    case (Inl e)
    then show ?thesis using h Some by (simp add: update_handler_def)
  next
    case (Inr d')
    from k valid Some Inr have a: "todo_id d = i \<and> archived d \<longrightarrow> archived d'"
      by (simp add: update_keeps_def)
    from body_update_id [OF Inr] have "todo_id d' = todo_id d" .
    with a hd have "hidden i d'" by (auto simp: hidden_def)
    then have "\<And>x. hidden i x \<Longrightarrow> hidden i ((\<lambda>x. d') x)" by simp
    from findOneAndUpdate_all [of "hidden i" "\<lambda>x. d'" s "owned j uid", OF this h]
    show ?thesis using h Some Inr by (simp add: update_handler_def)
  qed
  qed
qed

lemma toggle_hidden:
  assumes "list_all (hidden i) s"
  shows "list_all (hidden i) (snd (toggle_handler now uid j s))"
proof (cases "findOne (owned j uid) s")
  case None
  then show ?thesis using assms by (simp add: toggle_handler_def)
next
  case (Some t)
  then have "hidden i t" using assms findOne_in_set by (fastforce simp: list_all_iff)
  then have "hidden i (if status t = ''completed''
                then t\<lparr>status := ''pending'', completedAt := None\<rparr>
                else t\<lparr>status := ''completed'', completedAt := Some now\<rparr>)"
    by (simp add: hidden_def)
  from save_hidden [OF this assms] show ?thesis
    using Some by (simp add: toggle_handler_def toggleStatus_def Let_def case_prod_beta)
qed

lemma delete_hidden:
  "list_all (hidden i) s \<Longrightarrow> list_all (hidden i) (snd (delete_handler uid j s))"
  using findOneAndDelete_all [of "hidden i" s "owned j uid"]
  by (auto simp: delete_handler_def split: prod.splits option.splits)

lemma archive_hidden:
  assumes "list_all (hidden i) s"
  shows "list_all (hidden i) (snd (archive_handler now uid j s))"
proof -
  have "\<And>d. hidden i d \<Longrightarrow> hidden i (set_archived now d)"
    by (simp add: hidden_def set_archived_def)
  from findOneAndUpdate_all [of "hidden i" "set_archived now" s "owned j uid", OF this assms]
  show ?thesis using assms
    by (auto simp: archive_handler_def split: prod.splits option.splits)
qed

lemma add_subtask_hidden:
  assumes "list_all (hidden i) s"
  shows "list_all (hidden i) (snd (add_subtask_handler now uid j sid ttl s))"
proof (cases "findOne (owned j uid) s")
  case None
  then show ?thesis using assms by (simp add: add_subtask_handler_def)
next
  case (Some t)
  then have "hidden i t" using assms findOne_in_set by (fastforce simp: list_all_iff)
  then have "hidden i (t\<lparr>subtasks := subtasks t @
            [\<lparr> st_id = sid, st_title = trim ttl, st_completed = False, st_createdAt = now \<rparr>]\<rparr>)"
    by (simp add: hidden_def)
  from save_hidden [OF this assms] show ?thesis
    using Some assms by (simp add: add_subtask_handler_def addSubtask_def case_prod_beta)
qed

lemma toggle_subtask_hidden:
  assumes "list_all (hidden i) s"
  shows "list_all (hidden i) (snd (toggle_subtask_handler now uid j sid s))"
proof (cases "findOne (owned j uid) s")
  case None
  then show ?thesis using assms by (simp add: toggle_subtask_handler_def)
next
  case (Some t)
  then have "hidden i t" using assms findOne_in_set by (fastforce simp: list_all_iff)
  then have "hidden i (t\<lparr>subtasks := flip_subtask sid (subtasks t)\<rparr>)"
    by (simp add: hidden_def)
  from save_hidden [OF this assms] show ?thesis
    using Some assms
    by (simp add: toggle_subtask_handler_def toggleSubtask_def case_prod_beta split: option.splits)
qed

lemma add_comment_hidden:
  assumes "list_all (hidden i) s"
  shows "list_all (hidden i) (snd (add_comment_handler now uid j cid txt s))"
proof (cases "findOne (owned j uid) s")
  case None
  then show ?thesis using assms by (simp add: add_comment_handler_def)
next
  case (Some t)
  then have "hidden i t" using assms findOne_in_set by (fastforce simp: list_all_iff)
  then have "hidden i (t\<lparr>comments := comments t @
            [\<lparr> cm_id = cid, cm_text = trim txt, cm_user = uid, cm_createdAt = now \<rparr>]\<rparr>)"
    by (simp add: hidden_def)
  from save_hidden [OF this assms] show ?thesis
    using Some assms by (simp add: add_comment_handler_def addComment_def case_prod_beta)
qed

lemma bulk_hidden:
  assumes "list_all (hidden i) s"
  shows "list_all (hidden i) (snd (bulk_handler now uid b s))"
proof -
  have a: "\<And>d. hidden i d \<Longrightarrow> hidden i (set_archived now d)"
    by (simp add: hidden_def set_archived_def)
  have b: "\<And>d st. hidden i d \<Longrightarrow> hidden i (set_status now st d)"
    by (simp add: hidden_def set_status_def)
  show ?thesis using assms a b
    by (auto simp: bulk_handler_def deleteMany_def updateMany_def list_all_iff
        split: option.splits)
qed

lemma handle_hidden:
  "keeps_archived i now uid r s \<Longrightarrow> list_all (hidden i) s
   \<Longrightarrow> list_all (hidden i) (handle now uid r s)"
  by (cases r)
    (simp_all add: create_hidden update_hidden toggle_hidden delete_hidden archive_hidden
      add_subtask_hidden toggle_subtask_hidden add_comment_hidden bulk_hidden)

lemma run_hidden:
  "keeps_all i rs s \<Longrightarrow> list_all (hidden i) s \<Longrightarrow> list_all (hidden i) (run rs s)"
proof (induction rs arbitrary: s)
  case Nil
  then show ?case by simp
next
  case (Cons x rs)
  obtain now uid r where x: "x = (now, uid, r)" by (cases x)
  with Cons.prems(1) have k: "keeps_archived i now uid r s"
    and ks: "keeps_all i rs (handle now uid r s)" by simp_all
  from handle_hidden [OF k Cons.prems(2)] have "list_all (hidden i) (handle now uid r s)" .
  from Cons.IH [OF ks this] x show ?case by simp
qed

text \<open>
  Updates that keep the archiving whatever the collection holds: an Update addressed
  to another todo, an Update that fails validation, and an Update without operator
  keys whose body does not carry \<open>archived = false\<close>.
\<close>

lemma update_keeps_invalid:
  "\<not> (valid_update_body b \<and> update_validators b) \<Longrightarrow> update_keeps i now uid j b s"
  unfolding update_keeps_def by blast

lemma update_keeps_other: "j \<noteq> i \<Longrightarrow> update_keeps i now uid j b s"
proof (cases "findOne (owned j uid) s")
  case None
  then show ?thesis by (simp add: update_keeps_def)
next
  case (Some d)
  assume "j \<noteq> i"
  moreover have "owned j uid d" using Some
    by (induction s) (auto simp: findOne_def split: if_splits)
  ultimately have "todo_id d \<noteq> i" by (simp add: owned_def)
  with Some show ?thesis by (simp add: update_keeps_def split: sum.splits)
qed

lemma update_keeps_plain:
  "b_operators b = None \<Longrightarrow> b_archived b \<noteq> Some False \<Longrightarrow> update_keeps i now uid j b s"
  by (cases "b_archived b")
    (auto simp: update_keeps_def body_update_def sanitize_body_def apply_body_def the_default_def
      split: option.splits)

lemma findByUser_result:
  "findByUser rx uid opts s = Inr ds \<Longrightarrow> set ds \<subseteq> set s \<and> (\<forall>t \<in> set ds. \<not> archived t)"
  using compile_user_archived [of rx uid "drop 2 (findByUser_query uid opts)"]
    findByUser_query_head [of uid opts]
  by (auto simp: findByUser_def find_docs_def sort_todos_def split: sum.splits)

lemma hidden_filter:
  "list_all (hidden i) s \<Longrightarrow>
   filter (\<lambda>t. user t = uid \<and> archived t = False) (filter (\<lambda>t. todo_id t \<noteq> i) s)
     = filter (\<lambda>t. user t = uid \<and> archived t = False) s"
  by (induction s) (auto simp: hidden_def)

text \<open>
  C5, as the code has it. Take a todo identifier all of whose documents are archived,
  and any sequence of requests, by any users, in which no Update, when it runs, finds
  an archived document with that identifier and leaves it not archived, and no Create
  is given that identifier. Afterwards every document with that identifier is still
  archived, no listing by \<open>findByUser\<close> returns it, and the statistics are those of
  the collection without it.
\<close>

theorem archived_stays_hidden:
  assumes "keeps_all i rs s" and "list_all (hidden i) s"
  shows "list_all (hidden i) (run rs s)
         \<and> (\<forall>rx uid opts ds. findByUser rx uid opts (run rs s) = Inr ds
               \<longrightarrow> (\<forall>t \<in> set ds. todo_id t \<noteq> i))
         \<and> (\<forall>fmt parse now uid.
               getStats fmt parse now uid (run rs s)
                 = getStats fmt parse now uid (filter (\<lambda>t. todo_id t \<noteq> i) (run rs s)))"
proof -
  have h: "list_all (hidden i) (run rs s)"
    using run_hidden [OF assms] .
  have l: "\<forall>t \<in> set ds. todo_id t \<noteq> i"
    if "findByUser rx uid opts (run rs s) = Inr ds" for rx uid opts ds
    using findByUser_result [OF that] h by (auto simp: list_all_iff hidden_def)
  have g: "getStats fmt parse now uid (run rs s)
             = getStats fmt parse now uid (filter (\<lambda>t. todo_id t \<noteq> i) (run rs s))"
    for fmt parse now uid
    by (simp only: getStats_def hidden_filter [OF h])
  from h l g show ?thesis by blast
qed

text \<open>
  An instance: todo 1 of user 7 is archived, todo 2 is not. The owner toggles todo 1
  and retitles it; user 8 sends \<open>archived = false\<close> for todo 1, which is not theirs;
  the owner sends \<open>archived = false\<close> for todo 2; and the owner sends for todo 1 a
  body of operator keys whose effect is to star it, and then \<open>archived = false\<close>
  with an empty title, which fails validation. Todo 1 is still archived, and the
  owner's listing holds todo 2 only.
\<close>

theorem archived_stays_hidden_witness:
  "map archived
     (run [(2000, 7, Toggle 1),
           (3000, 7, Update 1 (empty_body\<lparr>b_title := Some ''Buy oat milk''\<rparr>)),
           (4000, 8, Update 1 (empty_body\<lparr>b_archived := Some False\<rparr>)),
           (5000, 7, Update 2 (empty_body\<lparr>b_archived := Some False\<rparr>)),
           (6000, 7, Update 1
              (empty_body\<lparr>b_operators := Some (\<lambda>now d. Inr (d\<lparr>starred := True\<rparr>))\<rparr>)),
           (7000, 7, Update 1 (empty_body\<lparr>b_title := Some [], b_archived := Some False\<rparr>))]
        [(sample_todo 1 7 ''Buy milk'')\<lparr>archived := True\<rparr>, sample_todo 2 7 ''Call home''])
     = [True, False]
   \<and> findByUser regex_fragment 7 no_options
       (run [(2000, 7, Toggle 1),
             (3000, 7, Update 1 (empty_body\<lparr>b_title := Some ''Buy oat milk''\<rparr>)),
             (4000, 8, Update 1 (empty_body\<lparr>b_archived := Some False\<rparr>)),
             (5000, 7, Update 2 (empty_body\<lparr>b_archived := Some False\<rparr>)),
             (6000, 7, Update 1
                (empty_body\<lparr>b_operators := Some (\<lambda>now d. Inr (d\<lparr>starred := True\<rparr>))\<rparr>)),
             (7000, 7, Update 1 (empty_body\<lparr>b_title := Some [], b_archived := Some False\<rparr>))]
          [(sample_todo 1 7 ''Buy milk'')\<lparr>archived := True\<rparr>, sample_todo 2 7 ''Call home''])
     = Inr [(sample_todo 2 7 ''Call home'')\<lparr>updatedAt := 5000\<rparr>]"
proof -
  let ?rs = "[(2000, 7, Toggle 1),
           (3000, 7, Update 1 (empty_body\<lparr>b_title := Some ''Buy oat milk''\<rparr>)),
           (4000, 8, Update 1 (empty_body\<lparr>b_archived := Some False\<rparr>)),
           (5000, 7, Update 2 (empty_body\<lparr>b_archived := Some False\<rparr>)),
           (6000, 7, Update 1
              (empty_body\<lparr>b_operators := Some (\<lambda>now d. Inr (d\<lparr>starred := True\<rparr>))\<rparr>)),
           (7000, 7, Update 1 (empty_body\<lparr>b_title := Some [], b_archived := Some False\<rparr>))]"
  let ?s = "[(sample_todo 1 7 ''Buy milk'')\<lparr>archived := True\<rparr>, sample_todo 2 7 ''Call home'']"
  note defs = toggle_handler_def toggleStatus_def save_def pre_save_def Let_def
        isModified_status_def findOne_def owned_def update_handler_def valid_update_body_def
        update_validators_def body_update_def update_keeps_def
        opt_ok_def sanitize_body_def apply_body_def empty_body_def sample_todo_def new_todo_def
        the_default_def trim_def is_space_def todo_not_found_def validation_failed_def
  have h1: "keeps_all 1 ?rs ?s"
    by (simp add: defs)
  have h2: "list_all (hidden 1) ?s"
    by (simp add: hidden_def sample_todo_def new_todo_def)
  have ev: "run ?rs ?s =
      [(sample_todo 1 7 ''Buy milk'')\<lparr>title := ''Buy oat milk'', status := ''completed'',
          completedAt := Some 2000, starred := True, archived := True, updatedAt := 6000\<rparr>,
       (sample_todo 2 7 ''Call home'')\<lparr>updatedAt := 5000\<rparr>]"
    by (simp add: defs)
  from archived_stays_hidden [OF h1 h2]
  have "list_all (hidden 1) (run ?rs ?s)" by (rule conjunct1)
  then have a: "map archived (run ?rs ?s) = [True, False]"
    unfolding ev by (simp add: hidden_def sample_todo_def new_todo_def empty_body_def the_default_def)
  have "findByUser regex_fragment 7 no_options (run ?rs ?s)
          = Inr [(sample_todo 2 7 ''Call home'')\<lparr>updatedAt := 5000\<rparr>]"
    unfolding ev
    by (simp add: no_options_def findByUser_def find_docs_def findByUser_query_def
        truthy_str_def field_def sort_todos_def sample_todo_def new_todo_def empty_body_def
        the_default_def)
  with a show ?thesis by (rule conjI)
qed

text \<open>
  C5 as stated fails: \<^verbatim>\<open>PUT /:id\<close> passes its body to \<open>findOneAndUpdate\<close>, and a body
  with \<open>archived = false\<close> brings an archived todo back into the default listing.
\<close>

theorem update_unarchives:
  "findByUser regex_fragment 7 no_options
       (run [(2000, 7, Archive 1)] [sample_todo 1 7 ''Buy milk'']) = Inr []
   \<and> findByUser regex_fragment 7 no_options
       (run [(2000, 7, Archive 1), (3000, 7, Update 1 (empty_body\<lparr>b_archived := Some False\<rparr>))]
          [sample_todo 1 7 ''Buy milk''])
     = Inr [(sample_todo 1 7 ''Buy milk'')\<lparr>updatedAt := 3000\<rparr>]"
  by (simp add: archive_handler_def set_archived_def
      findOne_def owned_def update_handler_def valid_update_body_def update_validators_def
      body_update_def opt_ok_def sanitize_body_def apply_body_def empty_body_def sample_todo_def
      new_todo_def the_default_def trim_def is_space_def no_options_def findByUser_def
      find_docs_def findByUser_query_def truthy_str_def field_def sort_todos_def)

text \<open>
  The same through operator keys, without \<open>archived\<close> at top level: a body whose
  operators give \<open>archived\<close> the value of \<open>starred\<close> (as renaming \<open>starred\<close> to
  \<open>archived\<close> does) un-archives a todo that is not starred.
\<close>

lemma update_operator_unarchives:
  "map archived
     (run [(2000, 7, Archive 1),
           (3000, 7, Update 1
              (empty_body\<lparr>b_operators := Some (\<lambda>now d. Inr (d\<lparr>archived := starred d\<rparr>))\<rparr>))]
        [sample_todo 1 7 ''Buy milk'']) = [False]"
  by (simp add: archive_handler_def set_archived_def
      findOne_def owned_def update_handler_def valid_update_body_def update_validators_def
      body_update_def opt_ok_def sanitize_body_def apply_body_def empty_body_def sample_todo_def
      new_todo_def the_default_def)

subsection \<open>Bulk operations\<close>

text \<open>
  C10. A bulk request with the action \<^verbatim>\<open>update-status\<close> and no status is answered
  with status 400 and \<open>success = false\<close>, and the collection is left as it was.
\<close>

theorem bulk_update_status_requires_status:
  assumes "action b = ''update-status''" and "bulk_status b = None"
  shows "code (fst (bulk_handler now uid b s)) = 400
         \<and> \<not> success (fst (bulk_handler now uid b s))
         \<and> snd (bulk_handler now uid b s) = s"
  using assms by (simp add: bulk_handler_def validation_failed_def)

theorem bulk_update_status_requires_status_witness:
  "bulk_handler 5000 7 \<lparr> action = ''update-status'', todoIds = [1], bulk_status = None \<rparr>
       [sample_todo 1 7 ''Buy milk'']
     = (Reply 400 False (Some ''Status is required for update-status action'') None None,
        [sample_todo 1 7 ''Buy milk''])"
  using bulk_update_status_requires_status
    [of "\<lparr> action = ''update-status'', todoIds = [1], bulk_status = None \<rparr>" 5000 7
        "[sample_todo 1 7 ''Buy milk'']"]
  by (simp add: bulk_handler_def valid_bulk_body_def opt_ok_def)

lemma bulk_handler_reported_count:
  assumes "valid_bulk_body b" and "action b = ''update-status'' \<longrightarrow> bulk_status b \<noteq> None"
  shows "data (fst (bulk_handler now uid b s)) =
           Some (if action b = ''delete'' then Some (count (bulk_filter (todoIds b) uid) s)
                 else let n = count (\<lambda>d. bulk_filter (todoIds b) uid d
                            \<and> (if action b = ''archive'' then set_archived now d
                                else set_status now (the (bulk_status b)) d) \<noteq> d) s
                      in if n = 0 then None else Some n)"
  using assms
  by (auto simp: bulk_handler_def bulk_ok_def deleteMany_def updateMany_def js_or_def Let_def
      valid_bulk_body_def split: option.splits)

text \<open>
  C9. The reply's count is \<^verbatim>\<open>result.modifiedCount || result.deletedCount\<close>. When a bulk
  archive (or update-status) modifies nothing, \<open>modifiedCount\<close> is 0, which is falsy, and
  the result of an update has no \<open>deletedCount\<close>: the reply carries no count at all.
  User 7 archiving the todo of user 8 gets a reply without \<open>modifiedCount\<close>, where the
  same request with the action \<^verbatim>\<open>delete\<close> reports the count 0.
\<close>

theorem bulk_archive_reports_no_count:
  "bulk_handler 5000 7 \<lparr> action = ''archive'', todoIds = [2], bulk_status = None \<rparr>
       [sample_todo 1 7 ''Buy milk'', sample_todo 2 8 ''Call home'']
     = (Reply 200 True (Some ''Bulk archive completed successfully'') (Some None) None,
        [sample_todo 1 7 ''Buy milk'', sample_todo 2 8 ''Call home''])
   \<and> bulk_handler 5000 7 \<lparr> action = ''delete'', todoIds = [2], bulk_status = None \<rparr>
       [sample_todo 1 7 ''Buy milk'', sample_todo 2 8 ''Call home'']
     = (Reply 200 True (Some ''Bulk delete completed successfully'') (Some (Some 0)) None,
        [sample_todo 1 7 ''Buy milk'', sample_todo 2 8 ''Call home''])"
  by (simp add: bulk_handler_def valid_bulk_body_def opt_ok_def bulk_ok_def deleteMany_def
      updateMany_def js_or_def count_def bulk_filter_def set_archived_def
      sample_todo_def new_todo_def empty_body_def the_default_def)

end
